theory Spec2Isabelle
  imports Complex_Main "HOL-Library.AList" "HOL-Library.Multiset"
begin

section \<open>JavaScript values, objects and the built-in Map\<close>

text \<open>
  The server is TypeScript; its types are erased when it runs, and the storage layer
  works on plain objects with the spread operator. A value is one of the forms the
  entities of \<^verbatim>\<open>shared/schema.ts\<close> hold: \<^verbatim>\<open>undefined\<close>, \<^verbatim>\<open>null\<close>, a boolean, a number, a
  string, a \<^verbatim>\<open>Date\<close> (its time value, milliseconds since the epoch), an array, or a nested
  object. Numbers are the integers (identifiers, counters and foreign keys are integer
  columns); an IEEE double holds every integer below \<open>2 ^ 53\<close> exactly, and the model
  does not go beyond that range. An object is the list of its own properties in
  insertion order.
\<close>

datatype jsval =
    JUndefined
  | JNull
  | JBool bool
  | JNum int
  | JStr string
  | JDate int
  | JArr "jsval list"
  | JObj "(string \<times> jsval) list"

type_synonym obj = "(string \<times> jsval) list"

text \<open>\<^verbatim>\<open>o.k\<close>: the value of a property, \<^verbatim>\<open>undefined\<close> when the object has none of that name.\<close>

definition jsprop :: "obj \<Rightarrow> string \<Rightarrow> jsval" where
  "jsprop ob k = (case map_of ob k of None \<Rightarrow> JUndefined | Some v \<Rightarrow> v)"

text \<open>
  \<^verbatim>\<open>{...target, ...src}\<close>: every property of \<open>src\<close> is written onto \<open>target\<close>, in order;
  a property that exists keeps its place and takes the new value, a new one is appended.
\<close>

definition spread :: "obj \<Rightarrow> obj \<Rightarrow> obj" where
  "spread target src = fold (\<lambda>(k, v). AList.update k v) src target"

text \<open>
  \<^verbatim>\<open>Map<number, V>\<close>: the entries in insertion order. \<^verbatim>\<open>set\<close> on a key that exists
  replaces the value in place, \<^verbatim>\<open>delete\<close> reports whether the key was there.
\<close>

type_synonym 'v jsmap = "(int \<times> 'v) list"

definition Map_get :: "'v jsmap \<Rightarrow> int \<Rightarrow> 'v option" where
  "Map_get m k = map_of m k"

definition Map_has :: "'v jsmap \<Rightarrow> int \<Rightarrow> bool" where
  "Map_has m k = (map_of m k \<noteq> None)"

definition Map_set :: "int \<Rightarrow> 'v \<Rightarrow> 'v jsmap \<Rightarrow> 'v jsmap" where
  "Map_set k v m = AList.update k v m"

definition Map_delete :: "int \<Rightarrow> 'v jsmap \<Rightarrow> bool \<times> 'v jsmap" where
  "Map_delete k m = (Map_has m k, AList.delete k m)"

definition Map_values :: "'v jsmap \<Rightarrow> 'v list" where
  "Map_values m = map snd m"


section \<open>The in-memory store (server/storage.ts)\<close>

record MemStorage =
  users :: "obj jsmap"
  students :: "obj jsmap"
  teachers :: "obj jsmap"
  classes :: "obj jsmap"
  classEnrollments :: "obj jsmap"
  attendance :: "obj jsmap"
  grades :: "obj jsmap"
  events :: "obj jsmap"
  activities :: "obj jsmap"
  userIdCounter :: int
  studentIdCounter :: int
  teacherIdCounter :: int
  classIdCounter :: int
  classEnrollmentIdCounter :: int
  attendanceIdCounter :: int
  gradeIdCounter :: int
  eventIdCounter :: int
  activityIdCounter :: int

text \<open>
  The constructor first sets every map empty and every counter to 1; it then calls
  \<^verbatim>\<open>createUser\<close> and \<^verbatim>\<open>seedSampleData\<close> (further below), which only call the public
  \<^verbatim>\<open>create\<close> methods.
\<close>

definition constructor_fields :: MemStorage where
  "constructor_fields =
     \<lparr> users = [], students = [], teachers = [], classes = [], classEnrollments = [],
       attendance = [], grades = [], events = [], activities = [],
       userIdCounter = 1, studentIdCounter = 1, teacherIdCounter = 1, classIdCounter = 1,
       classEnrollmentIdCounter = 1, attendanceIdCounter = 1, gradeIdCounter = 1,
       eventIdCounter = 1, activityIdCounter = 1 \<rparr>"

text \<open>\<^verbatim>\<open>{ ...insert, id }\<close>\<close>

definition with_id :: "obj \<Rightarrow> int \<Rightarrow> obj" where
  "with_id ins i = AList.update ''id'' (JNum i) (spread [] ins)"

subsection \<open>Users\<close>

definition getUsers :: "MemStorage \<Rightarrow> obj list" where
  "getUsers s = Map_values (users s)"

definition getUser :: "int \<Rightarrow> MemStorage \<Rightarrow> obj option" where
  "getUser i s = Map_get (users s) i"

definition getUserByUsername :: "string \<Rightarrow> MemStorage \<Rightarrow> obj option" where
  "getUserByUsername username s =
     find (\<lambda>user. jsprop user ''username'' = JStr username) (Map_values (users s))"

definition createUser :: "obj \<Rightarrow> MemStorage \<Rightarrow> obj \<times> MemStorage" where
  "createUser insertUser s =
     (let i = userIdCounter s;
          user = with_id insertUser i
      in (user, s\<lparr>userIdCounter := i + 1, users := Map_set i user (users s)\<rparr>))"

definition updateUser :: "int \<Rightarrow> obj \<Rightarrow> MemStorage \<Rightarrow> obj option \<times> MemStorage" where
  "updateUser i userData s =
     (case Map_get (users s) i of
        None \<Rightarrow> (None, s)
      | Some user \<Rightarrow>
          (let updatedUser = spread (spread [] user) userData
           in (Some updatedUser, s\<lparr>users := Map_set i updatedUser (users s)\<rparr>)))"

definition deleteUser :: "int \<Rightarrow> MemStorage \<Rightarrow> bool \<times> MemStorage" where
  "deleteUser i s =
     (let (existed, m) = Map_delete i (users s) in (existed, s\<lparr>users := m\<rparr>))"

subsection \<open>Students\<close>

definition getStudents :: "MemStorage \<Rightarrow> obj list" where
  "getStudents s = Map_values (students s)"

definition getStudent :: "int \<Rightarrow> MemStorage \<Rightarrow> obj option" where
  "getStudent i s = Map_get (students s) i"

definition getStudentByStudentId :: "string \<Rightarrow> MemStorage \<Rightarrow> obj option" where
  "getStudentByStudentId studentId s =
     find (\<lambda>student. jsprop student ''studentId'' = JStr studentId) (Map_values (students s))"

definition createStudent :: "obj \<Rightarrow> MemStorage \<Rightarrow> obj \<times> MemStorage" where
  "createStudent insertStudent s =
     (let i = studentIdCounter s;
          student = with_id insertStudent i
      in (student, s\<lparr>studentIdCounter := i + 1, students := Map_set i student (students s)\<rparr>))"

definition updateStudent :: "int \<Rightarrow> obj \<Rightarrow> MemStorage \<Rightarrow> obj option \<times> MemStorage" where
  "updateStudent i studentData s =
     (case Map_get (students s) i of
        None \<Rightarrow> (None, s)
      | Some student \<Rightarrow>
          (let updatedStudent = spread (spread [] student) studentData
           in (Some updatedStudent, s\<lparr>students := Map_set i updatedStudent (students s)\<rparr>)))"

definition deleteStudent :: "int \<Rightarrow> MemStorage \<Rightarrow> bool \<times> MemStorage" where
  "deleteStudent i s =
     (let (existed, m) = Map_delete i (students s) in (existed, s\<lparr>students := m\<rparr>))"

subsection \<open>Teachers\<close>

definition getTeachers :: "MemStorage \<Rightarrow> obj list" where
  "getTeachers s = Map_values (teachers s)"

definition getTeacher :: "int \<Rightarrow> MemStorage \<Rightarrow> obj option" where
  "getTeacher i s = Map_get (teachers s) i"

definition getTeacherByTeacherId :: "string \<Rightarrow> MemStorage \<Rightarrow> obj option" where
  "getTeacherByTeacherId teacherId s =
     find (\<lambda>teacher. jsprop teacher ''teacherId'' = JStr teacherId) (Map_values (teachers s))"

definition createTeacher :: "obj \<Rightarrow> MemStorage \<Rightarrow> obj \<times> MemStorage" where
  "createTeacher insertTeacher s =
     (let i = teacherIdCounter s;
          teacher = with_id insertTeacher i
      in (teacher, s\<lparr>teacherIdCounter := i + 1, teachers := Map_set i teacher (teachers s)\<rparr>))"

definition updateTeacher :: "int \<Rightarrow> obj \<Rightarrow> MemStorage \<Rightarrow> obj option \<times> MemStorage" where
  "updateTeacher i teacherData s =
     (case Map_get (teachers s) i of
        None \<Rightarrow> (None, s)
      | Some teacher \<Rightarrow>
          (let updatedTeacher = spread (spread [] teacher) teacherData
           in (Some updatedTeacher, s\<lparr>teachers := Map_set i updatedTeacher (teachers s)\<rparr>)))"

definition deleteTeacher :: "int \<Rightarrow> MemStorage \<Rightarrow> bool \<times> MemStorage" where
  "deleteTeacher i s =
     (let (existed, m) = Map_delete i (teachers s) in (existed, s\<lparr>teachers := m\<rparr>))"

subsection \<open>Classes\<close>

definition getClasses :: "MemStorage \<Rightarrow> obj list" where
  "getClasses s = Map_values (classes s)"

definition getClass :: "int \<Rightarrow> MemStorage \<Rightarrow> obj option" where
  "getClass i s = Map_get (classes s) i"

definition getClassByClassCode :: "string \<Rightarrow> MemStorage \<Rightarrow> obj option" where
  "getClassByClassCode classCode s =
     find (\<lambda>classItem. jsprop classItem ''classCode'' = JStr classCode) (Map_values (classes s))"

definition createClass :: "obj \<Rightarrow> MemStorage \<Rightarrow> obj \<times> MemStorage" where
  "createClass insertClass s =
     (let i = classIdCounter s;
          classData = with_id insertClass i
      in (classData, s\<lparr>classIdCounter := i + 1, classes := Map_set i classData (classes s)\<rparr>))"

definition updateClass :: "int \<Rightarrow> obj \<Rightarrow> MemStorage \<Rightarrow> obj option \<times> MemStorage" where
  "updateClass i classData s =
     (case Map_get (classes s) i of
        None \<Rightarrow> (None, s)
      | Some classItem \<Rightarrow>
          (let updatedClass = spread (spread [] classItem) classData
           in (Some updatedClass, s\<lparr>classes := Map_set i updatedClass (classes s)\<rparr>)))"

definition deleteClass :: "int \<Rightarrow> MemStorage \<Rightarrow> bool \<times> MemStorage" where
  "deleteClass i s =
     (let (existed, m) = Map_delete i (classes s) in (existed, s\<lparr>classes := m\<rparr>))"

subsection \<open>Class enrollments\<close>

definition getClassEnrollments :: "MemStorage \<Rightarrow> obj list" where
  "getClassEnrollments s = Map_values (classEnrollments s)"

definition getClassEnrollmentsByClassId :: "int \<Rightarrow> MemStorage \<Rightarrow> obj list" where
  "getClassEnrollmentsByClassId classId s =
     filter (\<lambda>enrollment. jsprop enrollment ''classId'' = JNum classId)
       (Map_values (classEnrollments s))"

definition getClassEnrollmentsByStudentId :: "int \<Rightarrow> MemStorage \<Rightarrow> obj list" where
  "getClassEnrollmentsByStudentId studentId s =
     filter (\<lambda>enrollment. jsprop enrollment ''studentId'' = JNum studentId)
       (Map_values (classEnrollments s))"

definition createClassEnrollment :: "obj \<Rightarrow> MemStorage \<Rightarrow> obj \<times> MemStorage" where
  "createClassEnrollment insertEnrollment s =
     (let i = classEnrollmentIdCounter s;
          enrollment = with_id insertEnrollment i
      in (enrollment, s\<lparr>classEnrollmentIdCounter := i + 1,
                         classEnrollments := Map_set i enrollment (classEnrollments s)\<rparr>))"

definition deleteClassEnrollment :: "int \<Rightarrow> MemStorage \<Rightarrow> bool \<times> MemStorage" where
  "deleteClassEnrollment i s =
     (let (existed, m) = Map_delete i (classEnrollments s)
      in (existed, s\<lparr>classEnrollments := m\<rparr>))"

subsection \<open>Attendance\<close>

definition getAttendance :: "MemStorage \<Rightarrow> obj list" where
  "getAttendance s = Map_values (attendance s)"



definition createAttendance :: "obj \<Rightarrow> MemStorage \<Rightarrow> obj \<times> MemStorage" where
  "createAttendance insertAttendance s =
     (let i = attendanceIdCounter s;
          a = with_id insertAttendance i
      in (a, s\<lparr>attendanceIdCounter := i + 1, attendance := Map_set i a (attendance s)\<rparr>))"

definition updateAttendance :: "int \<Rightarrow> obj \<Rightarrow> MemStorage \<Rightarrow> obj option \<times> MemStorage" where
  "updateAttendance i attendanceData s =
     (case Map_get (attendance s) i of
        None \<Rightarrow> (None, s)
      | Some a \<Rightarrow>
          (let updatedAttendance = spread (spread [] a) attendanceData
           in (Some updatedAttendance,
               s\<lparr>attendance := Map_set i updatedAttendance (attendance s)\<rparr>)))"

definition deleteAttendance :: "int \<Rightarrow> MemStorage \<Rightarrow> bool \<times> MemStorage" where
  "deleteAttendance i s =
     (let (existed, m) = Map_delete i (attendance s) in (existed, s\<lparr>attendance := m\<rparr>))"

subsection \<open>Grades\<close>

definition getGrades :: "MemStorage \<Rightarrow> obj list" where
  "getGrades s = Map_values (grades s)"

definition getGradesByClassId :: "int \<Rightarrow> MemStorage \<Rightarrow> obj list" where
  "getGradesByClassId classId s =
     filter (\<lambda>grade. jsprop grade ''classId'' = JNum classId) (Map_values (grades s))"

definition getGradesByStudentId :: "int \<Rightarrow> MemStorage \<Rightarrow> obj list" where
  "getGradesByStudentId studentId s =
     filter (\<lambda>grade. jsprop grade ''studentId'' = JNum studentId) (Map_values (grades s))"

definition createGrade :: "obj \<Rightarrow> MemStorage \<Rightarrow> obj \<times> MemStorage" where
  "createGrade insertGrade s =
     (let i = gradeIdCounter s;
          grade = with_id insertGrade i
      in (grade, s\<lparr>gradeIdCounter := i + 1, grades := Map_set i grade (grades s)\<rparr>))"

definition updateGrade :: "int \<Rightarrow> obj \<Rightarrow> MemStorage \<Rightarrow> obj option \<times> MemStorage" where
  "updateGrade i gradeData s =
     (case Map_get (grades s) i of
        None \<Rightarrow> (None, s)
      | Some grade \<Rightarrow>
          (let updatedGrade = spread (spread [] grade) gradeData
           in (Some updatedGrade, s\<lparr>grades := Map_set i updatedGrade (grades s)\<rparr>)))"

definition deleteGrade :: "int \<Rightarrow> MemStorage \<Rightarrow> bool \<times> MemStorage" where
  "deleteGrade i s =
     (let (existed, m) = Map_delete i (grades s) in (existed, s\<lparr>grades := m\<rparr>))"

subsection \<open>Events\<close>

definition getEvents :: "MemStorage \<Rightarrow> obj list" where
  "getEvents s = Map_values (events s)"

definition getEvent :: "int \<Rightarrow> MemStorage \<Rightarrow> obj option" where
  "getEvent i s = Map_get (events s) i"

definition createEvent :: "obj \<Rightarrow> MemStorage \<Rightarrow> obj \<times> MemStorage" where
  "createEvent insertEvent s =
     (let i = eventIdCounter s;
          event = with_id insertEvent i
      in (event, s\<lparr>eventIdCounter := i + 1, events := Map_set i event (events s)\<rparr>))"

definition updateEvent :: "int \<Rightarrow> obj \<Rightarrow> MemStorage \<Rightarrow> obj option \<times> MemStorage" where
  "updateEvent i eventData s =
     (case Map_get (events s) i of
        None \<Rightarrow> (None, s)
      | Some event \<Rightarrow>
          (let updatedEvent = spread (spread [] event) eventData
           in (Some updatedEvent, s\<lparr>events := Map_set i updatedEvent (events s)\<rparr>)))"

definition deleteEvent :: "int \<Rightarrow> MemStorage \<Rightarrow> bool \<times> MemStorage" where
  "deleteEvent i s =
     (let (existed, m) = Map_delete i (events s) in (existed, s\<lparr>events := m\<rparr>))"

subsection \<open>Activity log\<close>

text \<open>
  \<^verbatim>\<open>{ ...insertActivity, id, timestamp: new Date() }\<close>: the clock is read at the call, so
  the model takes its reading \<open>now\<close> as an argument.
\<close>

definition createActivity :: "obj \<Rightarrow> int \<Rightarrow> MemStorage \<Rightarrow> obj \<times> MemStorage" where
  "createActivity insertActivity now s =
     (let i = activityIdCounter s;
          activity = AList.update ''timestamp'' (JDate now) (with_id insertActivity i)
      in (activity, s\<lparr>activityIdCounter := i + 1,
                       activities := Map_set i activity (activities s)\<rparr>))"

section \<open>The nine collections, uniformly\<close>

text \<open>
  The class has one map and one counter per entity and one method per entity and
  operation, all of the same shape. The tables below name, for each entity, its map, its
  counter and its methods, so that a property can be stated once for all of them. The
  interface has no \<^verbatim>\<open>update\<close> for enrollments and neither \<^verbatim>\<open>update\<close> nor \<^verbatim>\<open>delete\<close> for
  activities.
\<close>

datatype entity =
  User | Student | Teacher | Class | ClassEnrollment | Attendance | Grade | Event | Activity

fun coll :: "entity \<Rightarrow> MemStorage \<Rightarrow> obj jsmap" where
  "coll User = users"
| "coll Student = students"
| "coll Teacher = teachers"
| "coll Class = classes"
| "coll ClassEnrollment = classEnrollments"
| "coll Attendance = attendance"
| "coll Grade = grades"
| "coll Event = events"
| "coll Activity = activities"

fun counter :: "entity \<Rightarrow> MemStorage \<Rightarrow> int" where
  "counter User = userIdCounter"
| "counter Student = studentIdCounter"
| "counter Teacher = teacherIdCounter"
| "counter Class = classIdCounter"
| "counter ClassEnrollment = classEnrollmentIdCounter"
| "counter Attendance = attendanceIdCounter"
| "counter Grade = gradeIdCounter"
| "counter Event = eventIdCounter"
| "counter Activity = activityIdCounter"

fun create_of :: "entity \<Rightarrow> obj \<Rightarrow> int \<Rightarrow> MemStorage \<Rightarrow> obj \<times> MemStorage" where
  "create_of User ins now = createUser ins"
| "create_of Student ins now = createStudent ins"
| "create_of Teacher ins now = createTeacher ins"
| "create_of Class ins now = createClass ins"
| "create_of ClassEnrollment ins now = createClassEnrollment ins"
| "create_of Attendance ins now = createAttendance ins"
| "create_of Grade ins now = createGrade ins"
| "create_of Event ins now = createEvent ins"
| "create_of Activity ins now = createActivity ins now"

fun update_of :: "entity \<Rightarrow> (int \<Rightarrow> obj \<Rightarrow> MemStorage \<Rightarrow> obj option \<times> MemStorage) option" where
  "update_of User = Some updateUser"
| "update_of Student = Some updateStudent"
| "update_of Teacher = Some updateTeacher"
| "update_of Class = Some updateClass"
| "update_of ClassEnrollment = None"
| "update_of Attendance = Some updateAttendance"
| "update_of Grade = Some updateGrade"
| "update_of Event = Some updateEvent"
| "update_of Activity = None"

fun delete_of :: "entity \<Rightarrow> (int \<Rightarrow> MemStorage \<Rightarrow> bool \<times> MemStorage) option" where
  "delete_of User = Some deleteUser"
| "delete_of Student = Some deleteStudent"
| "delete_of Teacher = Some deleteTeacher"
| "delete_of Class = Some deleteClass"
| "delete_of ClassEnrollment = Some deleteClassEnrollment"
| "delete_of Attendance = Some deleteAttendance"
| "delete_of Grade = Some deleteGrade"
| "delete_of Event = Some deleteEvent"
| "delete_of Activity = None"

text \<open>
  A call of a mutating method of the store, and its effect on the store. A call the
  interface does not have (update of an enrollment, update or delete of an activity)
  cannot be made; \<open>exec\<close> leaves the store as it is there.
\<close>

datatype call =
    Create entity obj int
  | Update entity int obj
  | Delete entity int

fun exec :: "call \<Rightarrow> MemStorage \<Rightarrow> MemStorage" where
  "exec (Create e ins now) s = snd (create_of e ins now s)"
| "exec (Update e i p) s = (case update_of e of None \<Rightarrow> s | Some upd \<Rightarrow> snd (upd i p s))"
| "exec (Delete e i) s = (case delete_of e of None \<Rightarrow> s | Some del \<Rightarrow> snd (del i s))"

fun run :: "call list \<Rightarrow> MemStorage \<Rightarrow> MemStorage" where
  "run [] s = s"
| "run (c # cs) s = run cs (exec c s)"

text \<open>An object never has two properties of one name.\<close>

definition wf_obj :: "obj \<Rightarrow> bool" where
  "wf_obj ob = distinct (map fst ob)"

section \<open>The constructor and its sample data (server/storage.ts)\<close>

text \<open>
  The constructor creates the administrator and then the sample data, by the public
  \<^verbatim>\<open>create\<close> methods, in the order below. Some of the data depends on the clock and the
  time zone of the host at start-up: the time of the start (\<^verbatim>\<open>today\<close>), the same time on
  the day before, local midnight on a given day of the next month, and the clock reading
  at each of the five activities logged. Dates written as \<^verbatim>\<open>new Date("2020-08-01")\<close> are
  midnight UTC of that day. All avatars are addresses of one form.
\<close>

record clock =
  today :: int
  yesterday :: int
  nextMonth_day :: "int \<Rightarrow> int"
  activity_time :: "nat \<Rightarrow> int"

definition avatar_url :: "string \<Rightarrow> string" where
  "avatar_url photo =
     ''https://images.unsplash.com/photo-'' @ photo
       @ ''?ixlib=rb-4.0.3&ixid=M3wxMjA3fDB8MHxwaG90by1wYWdlfHx8fGVufDB8fHx8fA%3D%3D''
       @ ''&auto=format&fit=crop&w=100&h=100''"

definition admin_user :: obj where
  "admin_user =
     [(''username'', JStr ''admin''), (''password'', JStr ''admin123''),
      (''role'', JStr ''admin''), (''fullName'', JStr ''Jane Cooper''),
      (''email'', JStr ''admin@school.edu''),
      (''avatar'', JStr (avatar_url ''1534528741775-53994a69daeb''))]"

definition sample_teachers :: "obj list" where
  "sample_teachers =
    [[(''teacherId'', JStr ''TCH1001''), (''firstName'', JStr ''Robert''),
      (''lastName'', JStr ''Fox''), (''email'', JStr ''robert.fox@school.edu''),
      (''phone'', JStr ''+1-555-123-4567''), (''address'', JStr ''123 Oak St, Springfield''),
      (''qualification'', JStr ''M.Ed in Mathematics''), (''joinDate'', JDate 1596240000000),
      (''subjects'', JArr [JStr ''Mathematics'', JStr ''Physics'']),
      (''avatar'', JStr (avatar_url ''1500648767791-00dcc994a43e'')), (''userId'', JNum 1)],
     [(''teacherId'', JStr ''TCH1002''), (''firstName'', JStr ''Esther''),
      (''lastName'', JStr ''Howard''), (''email'', JStr ''esther.howard@school.edu''),
      (''phone'', JStr ''+1-555-234-5678''), (''address'', JStr ''456 Maple Ave, Springfield''),
      (''qualification'', JStr ''Ph.D in Literature''), (''joinDate'', JDate 1563148800000),
      (''subjects'', JArr [JStr ''English Literature'', JStr ''Grammar'']),
      (''avatar'', JStr (avatar_url ''1494790108377-be9c29b29330'')), (''userId'', JUndefined)],
     [(''teacherId'', JStr ''TCH1003''), (''firstName'', JStr ''Cameron''),
      (''lastName'', JStr ''Smith''), (''email'', JStr ''cameron.smith@school.edu''),
      (''phone'', JStr ''+1-555-345-6789''), (''address'', JStr ''789 Pine Rd, Springfield''),
      (''qualification'', JStr ''M.Sc in Biology''), (''joinDate'', JDate 1610236800000),
      (''subjects'', JArr [JStr ''Biology'', JStr ''Chemistry'']),
      (''avatar'', JStr (avatar_url ''1507003211169-0a1dd7228f2d'')), (''userId'', JUndefined)]]"

definition sample_students :: "obj list" where
  "sample_students =
    [[(''studentId'', JStr ''STU10045''), (''firstName'', JStr ''Sarah''),
      (''lastName'', JStr ''Johnson''), (''gender'', JStr ''F''),
      (''dateOfBirth'', JDate 1179187200000), (''email'', JStr ''sarah.j@example.com''),
      (''phone'', JStr ''+1 234-567-8901''),
      (''address'', JStr ''101 Student Way, Springfield''),
      (''guardianName'', JStr ''Michael Johnson''),
      (''guardianPhone'', JStr ''+1 234-567-8910''), (''gradeLevel'', JStr ''10''),
      (''section'', JStr ''A''), (''enrollmentDate'', JDate 1661990400000),
      (''avatar'', JStr (avatar_url ''1494790108377-be9c29b29330''))],
     [(''studentId'', JStr ''STU10046''), (''firstName'', JStr ''Michael''),
      (''lastName'', JStr ''Brown''), (''gender'', JStr ''M''),
      (''dateOfBirth'', JDate 1156204800000), (''email'', JStr ''michael.b@example.com''),
      (''phone'', JStr ''+1 234-567-8902''),
      (''address'', JStr ''202 Student Ave, Springfield''),
      (''guardianName'', JStr ''Patricia Brown''),
      (''guardianPhone'', JStr ''+1 234-567-8920''), (''gradeLevel'', JStr ''11''),
      (''section'', JStr ''B''), (''enrollmentDate'', JDate 1630454400000),
      (''avatar'', JStr (avatar_url ''1507003211169-0a1dd7228f2d''))],
     [(''studentId'', JStr ''STU10047''), (''firstName'', JStr ''Emma''),
      (''lastName'', JStr ''Wilson''), (''gender'', JStr ''F''),
      (''dateOfBirth'', JDate 1173484800000), (''email'', JStr ''emma.w@example.com''),
      (''phone'', JStr ''+1 234-567-8903''),
      (''address'', JStr ''303 Student Blvd, Springfield''),
      (''guardianName'', JStr ''David Wilson''), (''guardianPhone'', JStr ''+1 234-567-8930''),
      (''gradeLevel'', JStr ''10''), (''section'', JStr ''A''),
      (''enrollmentDate'', JDate 1661990400000),
      (''avatar'', JStr (avatar_url ''1534528741775-53994a69daeb''))],
     [(''studentId'', JStr ''STU10048''), (''firstName'', JStr ''James''),
      (''lastName'', JStr ''Taylor''), (''gender'', JStr ''M''),
      (''dateOfBirth'', JDate 1228435200000), (''email'', JStr ''james.t@example.com''),
      (''phone'', JStr ''+1 234-567-8904''),
      (''address'', JStr ''404 Student Circle, Springfield''),
      (''guardianName'', JStr ''Mary Taylor''), (''guardianPhone'', JStr ''+1 234-567-8940''),
      (''gradeLevel'', JStr ''9''), (''section'', JStr ''C''),
      (''enrollmentDate'', JDate 1693526400000),
      (''avatar'', JStr (avatar_url ''1500648767791-00dcc994a43e''))],
     [(''studentId'', JStr ''STU10049''), (''firstName'', JStr ''Olivia''),
      (''lastName'', JStr ''Martin''), (''gender'', JStr ''F''),
      (''dateOfBirth'', JDate 1151625600000), (''email'', JStr ''olivia.m@example.com''),
      (''phone'', JStr ''+1 234-567-8905''),
      (''address'', JStr ''505 Student Lane, Springfield''),
      (''guardianName'', JStr ''Robert Martin''), (''guardianPhone'', JStr ''+1 234-567-8950''),
      (''gradeLevel'', JStr ''11''), (''section'', JStr ''A''),
      (''enrollmentDate'', JDate 1630454400000),
      (''avatar'', JStr (avatar_url ''1531123897727-8f129e1688ce''))]]"

definition sample_classes :: "obj list" where
  "sample_classes =
    [[(''className'', JStr ''Mathematics 101''), (''classCode'', JStr ''MATH101''),
      (''gradeLevel'', JStr ''10''), (''section'', JStr ''A''),
      (''description'', JStr ''Basic algebra and geometry concepts''), (''teacherId'', JNum 1),
      (''schedule'', JStr ''Mon, Wed, Fri 9:00-10:00''), (''roomNumber'', JStr ''101''),
      (''academicYear'', JStr ''2023-2024'')],
     [(''className'', JStr ''English Literature''), (''classCode'', JStr ''ENG201''),
      (''gradeLevel'', JStr ''11''), (''section'', JStr ''B''),
      (''description'', JStr ''Study of classic literature works''), (''teacherId'', JNum 2),
      (''schedule'', JStr ''Tue, Thu 10:00-11:30''), (''roomNumber'', JStr ''202''),
      (''academicYear'', JStr ''2023-2024'')],
     [(''className'', JStr ''Biology''), (''classCode'', JStr ''BIO101''),
      (''gradeLevel'', JStr ''9''), (''section'', JStr ''C''),
      (''description'', JStr ''Introduction to biological concepts''), (''teacherId'', JNum 3),
      (''schedule'', JStr ''Mon, Wed 1:00-2:30''), (''roomNumber'', JStr ''305''),
      (''academicYear'', JStr ''2023-2024'')]]"

definition sample_enrollments :: "obj list" where
  "sample_enrollments =
    [[(''classId'', JNum 1), (''studentId'', JNum 1), (''enrollmentDate'', JDate 1693526400000)],
     [(''classId'', JNum 1), (''studentId'', JNum 3), (''enrollmentDate'', JDate 1693526400000)],
     [(''classId'', JNum 2), (''studentId'', JNum 2), (''enrollmentDate'', JDate 1693526400000)],
     [(''classId'', JNum 2), (''studentId'', JNum 5), (''enrollmentDate'', JDate 1693526400000)],
     [(''classId'', JNum 3), (''studentId'', JNum 4), (''enrollmentDate'', JDate 1693526400000)]]"

definition sample_attendance :: "clock \<Rightarrow> obj list" where
  "sample_attendance clk =
    [[(''classId'', JNum 1), (''studentId'', JNum 1), (''date'', JDate (today clk)),
      (''status'', JStr ''present''), (''notes'', JStr '''')],
     [(''classId'', JNum 1), (''studentId'', JNum 3), (''date'', JDate (today clk)),
      (''status'', JStr ''present''), (''notes'', JStr '''')],
     [(''classId'', JNum 2), (''studentId'', JNum 2), (''date'', JDate (today clk)),
      (''status'', JStr ''late''), (''notes'', JStr ''Arrived 10 minutes late'')],
     [(''classId'', JNum 2), (''studentId'', JNum 5), (''date'', JDate (today clk)),
      (''status'', JStr ''present''), (''notes'', JStr '''')],
     [(''classId'', JNum 3), (''studentId'', JNum 4), (''date'', JDate (today clk)),
      (''status'', JStr ''absent''), (''notes'', JStr ''No notification received'')],
     [(''classId'', JNum 1), (''studentId'', JNum 1), (''date'', JDate (yesterday clk)),
      (''status'', JStr ''present''), (''notes'', JStr '''')],
     [(''classId'', JNum 1), (''studentId'', JNum 3), (''date'', JDate (yesterday clk)),
      (''status'', JStr ''present''), (''notes'', JStr '''')]]"

definition sample_grades :: "obj list" where
  "sample_grades =
    [[(''classId'', JNum 1), (''studentId'', JNum 1),
      (''assignmentName'', JStr ''Algebra Quiz 1''), (''assignmentType'', JStr ''quiz''),
      (''maxScore'', JNum 20), (''score'', JNum 19), (''gradedDate'', JDate 1694736000000),
      (''comments'', JStr ''Excellent work!'')],
     [(''classId'', JNum 1), (''studentId'', JNum 3),
      (''assignmentName'', JStr ''Algebra Quiz 1''), (''assignmentType'', JStr ''quiz''),
      (''maxScore'', JNum 20), (''score'', JNum 18), (''gradedDate'', JDate 1694736000000),
      (''comments'', JStr ''Great job!'')],
     [(''classId'', JNum 2), (''studentId'', JNum 2),
      (''assignmentName'', JStr ''Essay on Shakespeare''),
      (''assignmentType'', JStr ''homework''), (''maxScore'', JNum 50), (''score'', JNum 45),
      (''gradedDate'', JDate 1695168000000),
      (''comments'', JStr ''Well written, good analysis.'')],
     [(''classId'', JNum 2), (''studentId'', JNum 5),
      (''assignmentName'', JStr ''Essay on Shakespeare''),
      (''assignmentType'', JStr ''homework''), (''maxScore'', JNum 50), (''score'', JNum 48),
      (''gradedDate'', JDate 1695168000000),
      (''comments'', JStr ''Outstanding work, very insightful.'')],
     [(''classId'', JNum 3), (''studentId'', JNum 4),
      (''assignmentName'', JStr ''Cell Structure Test''), (''assignmentType'', JStr ''exam''),
      (''maxScore'', JNum 100), (''score'', JNum 72), (''gradedDate'', JDate 1695600000000),
      (''comments'', JStr ''Need improvement in understanding organelles.'')]]"

definition sample_events :: "clock \<Rightarrow> obj list" where
  "sample_events clk =
    [[(''title'', JStr ''Final Exams - Grade 10''),
      (''description'', JStr ''End of semester examinations for all Grade 10 students''),
      (''startDate'', JDate (nextMonth_day clk 2)), (''endDate'', JDate (nextMonth_day clk 2)),
      (''startTime'', JStr ''08:00''), (''endTime'', JStr ''12:00''), (''allDay'', JBool False),
      (''location'', JStr ''Examination Hall''), (''type'', JStr ''exam'')],
     [(''title'', JStr ''Parent-Teacher Meeting''),
      (''description'', JStr ''Semester review with parents''),
      (''startDate'', JDate (nextMonth_day clk 5)), (''endDate'', JDate (nextMonth_day clk 5)),
      (''startTime'', JStr ''14:00''), (''endTime'', JStr ''17:00''), (''allDay'', JBool False),
      (''location'', JStr ''School Auditorium''), (''type'', JStr ''meeting'')],
     [(''title'', JStr ''School Sports Day''),
      (''description'', JStr ''Annual athletics competition''),
      (''startDate'', JDate (nextMonth_day clk 10)),
      (''endDate'', JDate (nextMonth_day clk 10)), (''startTime'', JStr ''09:00''),
      (''endTime'', JStr ''16:00''), (''allDay'', JBool True),
      (''location'', JStr ''School Sports Ground''), (''type'', JStr ''activity'')],
     [(''title'', JStr ''Annual Science Fair''),
      (''description'', JStr ''Showcase of student science projects''),
      (''startDate'', JDate (nextMonth_day clk 15)),
      (''endDate'', JDate (nextMonth_day clk 15)), (''startTime'', JStr ''10:00''),
      (''endTime'', JStr ''15:00''), (''allDay'', JBool False),
      (''location'', JStr ''School Hall''), (''type'', JStr ''activity'')]]"

definition sample_activities :: "obj list" where
  "sample_activities =
    [[(''userId'', JNum 1), (''action'', JStr ''Added Student''),
      (''details'', JStr ''Added Sarah Johnson to Grade 10-A'')],
     [(''userId'', JNum 1), (''action'', JStr ''Updated Grade''),
      (''details'', JStr ''Updated Algebra Quiz 1 grades for Math 101'')],
     [(''userId'', JNum 1), (''action'', JStr ''Marked Attendance''),
      (''details'', JStr ''Marked attendance for English Literature class'')],
     [(''userId'', JNum 1), (''action'', JStr ''Added Class''),
      (''details'', JStr ''Added Mathematics 101 for Grade 10-A'')],
     [(''userId'', JNum 1), (''action'', JStr ''Updated Teacher''),
      (''details'', JStr ''Updated contact information for Cameron Smith'')]]"

definition seed_calls :: "clock \<Rightarrow> call list" where
  "seed_calls clk =
     map (\<lambda>x. Create Teacher x 0) sample_teachers
     @ map (\<lambda>x. Create Student x 0) sample_students
     @ map (\<lambda>x. Create Class x 0) sample_classes
     @ map (\<lambda>x. Create ClassEnrollment x 0) sample_enrollments
     @ map (\<lambda>x. Create Attendance x 0) (sample_attendance clk)
     @ map (\<lambda>x. Create Grade x 0) sample_grades
     @ map (\<lambda>x. Create Event x 0) (sample_events clk)
     @ map (\<lambda>(k, x). Create Activity x (activity_time clk k)) (enumerate 0 sample_activities)"

definition seedSampleData :: "clock \<Rightarrow> MemStorage \<Rightarrow> MemStorage" where
  "seedSampleData clk s = run (seed_calls clk) s"

definition new_MemStorage :: "clock \<Rightarrow> MemStorage" where
  "new_MemStorage clk = seedSampleData clk (snd (createUser admin_user constructor_fields))"

text \<open>A start of the server at 2024-01-15 10:00 UTC, on a host whose time zone is UTC.\<close>

definition sample_clock :: clock where
  "sample_clock =
     \<lparr> today = 1705312800000, yesterday = 1705226400000,
       nextMonth_day = (\<lambda>d. 1706745600000 + (d - 1) * 86400000),
       activity_time = (\<lambda>k. 1705312800000) \<rparr>"

section \<open>Dates, sorting and the derived views (server/storage.ts)\<close>

text \<open>
  A \<^verbatim>\<open>Date\<close> is its time value: an integer number of milliseconds, at most
  \<open>8.64 * 10 ^ 15\<close> from the epoch either way, or \<^verbatim>\<open>NaN\<close> for an invalid date (\<open>None\<close>).
  \<^verbatim>\<open>Date.parse\<close> accepts implementation-defined formats, so the functions that parse
  a string take it as the argument \<open>P\<close>.
\<close>

definition TimeClip :: "int \<Rightarrow> int option" where
  "TimeClip t = (if \<bar>t\<bar> \<le> 8640000000000000 then Some t else None)"

text \<open>
  \<^verbatim>\<open>String(v)\<close> as a template literal and \<^verbatim>\<open>Array.prototype.join\<close> compute it; the text of
  a \<^verbatim>\<open>Date\<close> depends on the host's time zone and is the argument \<open>D\<close>.
\<close>

fun show_nat :: "nat \<Rightarrow> string" where
  "show_nat n =
     (if n < 10 then [char_of (48 + n)] else show_nat (n div 10) @ [char_of (48 + n mod 10)])"

definition show_int :: "int \<Rightarrow> string" where
  "show_int i = (if i < 0 then CHR ''-'' # show_nat (nat (- i)) else show_nat (nat i))"

fun intercalate :: "string \<Rightarrow> string list \<Rightarrow> string" where
  "intercalate sep [] = []"
| "intercalate sep [x] = x"
| "intercalate sep (x # y # ys) = x @ sep @ intercalate sep (y # ys)"

fun toStr :: "(int \<Rightarrow> string) \<Rightarrow> jsval \<Rightarrow> string"
and toStr_element :: "(int \<Rightarrow> string) \<Rightarrow> jsval \<Rightarrow> string"
and toStr_elements :: "(int \<Rightarrow> string) \<Rightarrow> jsval list \<Rightarrow> string list" where
  "toStr D JUndefined = ''undefined''"
| "toStr D JNull = ''null''"
| "toStr D (JBool b) = (if b then ''true'' else ''false'')"
| "toStr D (JNum n) = show_int n"
| "toStr D (JStr s) = s"
| "toStr D (JDate t) = D t"
| "toStr D (JArr xs) = intercalate '','' (toStr_elements D xs)"
| "toStr D (JObj kvs) = ''[object Object]''"
| "toStr_element D JUndefined = []"
| "toStr_element D JNull = []"
| "toStr_element D (JBool b) = toStr D (JBool b)"
| "toStr_element D (JNum n) = toStr D (JNum n)"
| "toStr_element D (JStr s) = toStr D (JStr s)"
| "toStr_element D (JDate t) = toStr D (JDate t)"
| "toStr_element D (JArr xs) = toStr D (JArr xs)"
| "toStr_element D (JObj kvs) = toStr D (JObj kvs)"
| "toStr_elements D [] = []"
| "toStr_elements D (x # xs) = toStr_element D x # toStr_elements D xs"

text \<open>
  The time value of \<^verbatim>\<open>new Date(v)\<close>: a \<^verbatim>\<open>Date\<close> is copied, a string is parsed, anything
  else is converted to a number first (\<^verbatim>\<open>undefined\<close> to \<^verbatim>\<open>NaN\<close>, \<^verbatim>\<open>null\<close> and \<^verbatim>\<open>false\<close> to 0);
  an array or object is converted to its string first.
\<close>

fun new_Date :: "(string \<Rightarrow> int option) \<Rightarrow> (int \<Rightarrow> string) \<Rightarrow> jsval \<Rightarrow> int option" where
  "new_Date P D JUndefined = None"
| "new_Date P D JNull = Some 0"
| "new_Date P D (JBool b) = Some (if b then 1 else 0)"
| "new_Date P D (JNum n) = TimeClip n"
| "new_Date P D (JStr s) = P s"
| "new_Date P D (JDate t) = Some t"
| "new_Date P D (JArr xs) = P (toStr D (JArr xs))"
| "new_Date P D (JObj kvs) = P (toStr D (JObj kvs))"

text \<open>
  \<^verbatim>\<open>Array.prototype.sort(comparefn)\<close>. The language fixes the result for a consistent
  comparator: the elements in an order where no element is followed by one that compares
  below it, elements that compare equal in their original order. A \<^verbatim>\<open>NaN\<close> from the
  comparator (\<open>None\<close>) counts as 0. The model is the stable insertion sort.
\<close>

fun insort_cmp :: "('a \<Rightarrow> 'a \<Rightarrow> int option) \<Rightarrow> 'a \<Rightarrow> 'a list \<Rightarrow> 'a list" where
  "insort_cmp cmp x [] = [x]"
| "insort_cmp cmp x (y # ys) =
     (if (case cmp x y of None \<Rightarrow> 0 | Some v \<Rightarrow> v) \<le> 0 then x # y # ys
      else y # insort_cmp cmp x ys)"

definition Array_sort :: "('a \<Rightarrow> 'a \<Rightarrow> int option) \<Rightarrow> 'a list \<Rightarrow> 'a list" where
  "Array_sort cmp xs = foldr (insort_cmp cmp) xs []"

text \<open>\<^verbatim>\<open>new Date(x.timestamp).getTime()\<close>\<close>

definition timestamp_ms :: "(string \<Rightarrow> int option) \<Rightarrow> (int \<Rightarrow> string) \<Rightarrow> obj \<Rightarrow> int option" where
  "timestamp_ms P D x = new_Date P D (jsprop x ''timestamp'')"

definition getActivities ::
  "(string \<Rightarrow> int option) \<Rightarrow> (int \<Rightarrow> string) \<Rightarrow> MemStorage \<Rightarrow> obj list" where
  "getActivities P D s =
     Array_sort
       (\<lambda>a b. case (timestamp_ms P D b, timestamp_ms P D a) of
                 (Some tb, Some ta) \<Rightarrow> Some (tb - ta)
               | _ \<Rightarrow> None)
       (Map_values (activities s))"






section \<open>Calendar dates of time values\<close>

text \<open>
  \<^verbatim>\<open>Date.prototype.toISOString\<close> is defined by the language through the functions below
  (Day, DayFromYear, YearFromTime, MonthFromTime, DateFromTime and the rest), all in UTC.
  The year of a time value is the largest year that starts no later than it; the model
  finds it from an estimate by stepping down, then up.
\<close>

definition msPerDay :: int where
  "msPerDay = 86400000"

definition Day :: "int \<Rightarrow> int" where
  "Day t = t div msPerDay"

definition DaysInYear :: "int \<Rightarrow> int" where
  "DaysInYear y =
     (if y mod 4 \<noteq> 0 then 365
      else if y mod 100 \<noteq> 0 then 366
      else if y mod 400 \<noteq> 0 then 365
      else 366)"

definition DayFromYear :: "int \<Rightarrow> int" where
  "DayFromYear y =
     365 * (y - 1970) + (y - 1969) div 4 - (y - 1901) div 100 + (y - 1601) div 400"

function year_down :: "int \<Rightarrow> int \<Rightarrow> int" where
  "year_down d y = (if d < DayFromYear y then year_down d (y - 1) else y)"
  by pat_completeness auto
termination
proof (relation "measure (\<lambda>(d, y). nat (DayFromYear y - d))")
  show "wf (measure (\<lambda>(d, y). nat (DayFromYear y - d)))" by simp
next
  fix d y :: int
  assume a: "d < DayFromYear y"
  define a4 where "a4 = (y - 1969) div 4"
  define b4 where "b4 = (y - 1 - 1969) div 4"
  define a100 where "a100 = (y - 1901) div 100"
  define b100 where "b100 = (y - 1 - 1901) div 100"
  define a400 where "a400 = (y - 1601) div 400"
  define b400 where "b400 = (y - 1 - 1601) div 400"
  have 1: "b4 \<le> a4" unfolding a4_def b4_def by (rule zdiv_mono1) simp_all
  have "a100 \<le> (y - 1 - 1901 + 100) div 100" unfolding a100_def by (rule zdiv_mono1) simp_all
  also have "\<dots> = b100 + 1" unfolding b100_def by (rule div_add_self2) simp
  finally have 2: "a100 \<le> b100 + 1" .
  have 3: "b400 \<le> a400" unfolding a400_def b400_def by (rule zdiv_mono1) simp_all
  have "DayFromYear (y - 1) = 365 * (y - 1 - 1970) + b4 - b100 + b400"
    by (simp add: DayFromYear_def b4_def b100_def b400_def)
  moreover have "DayFromYear y = 365 * (y - 1970) + a4 - a100 + a400"
    by (simp add: DayFromYear_def a4_def a100_def a400_def)
  ultimately have "DayFromYear (y - 1) < DayFromYear y" using 1 2 3 by simp
  then show "((d, y - 1), (d, y)) \<in> measure (\<lambda>(d, y). nat (DayFromYear y - d))"
    using a by simp
qed

function year_up :: "int \<Rightarrow> int \<Rightarrow> int" where
  "year_up d y = (if DayFromYear (y + 1) \<le> d then year_up d (y + 1) else y)"
  by pat_completeness auto
termination
proof (relation "measure (\<lambda>(d, y). nat (d + 1 - DayFromYear (y + 1)))")
  show "wf (measure (\<lambda>(d, y). nat (d + 1 - DayFromYear (y + 1))))" by simp
next
  fix d y :: int
  assume a: "DayFromYear (y + 1) \<le> d"
  define a4 where "a4 = (y + 1 + 1 - 1969) div 4"
  define b4 where "b4 = (y + 1 - 1969) div 4"
  define a100 where "a100 = (y + 1 + 1 - 1901) div 100"
  define b100 where "b100 = (y + 1 - 1901) div 100"
  define a400 where "a400 = (y + 1 + 1 - 1601) div 400"
  define b400 where "b400 = (y + 1 - 1601) div 400"
  have 1: "b4 \<le> a4" unfolding a4_def b4_def by (rule zdiv_mono1) simp_all
  have "a100 \<le> (y + 1 - 1901 + 100) div 100" unfolding a100_def by (rule zdiv_mono1) simp_all
  also have "\<dots> = b100 + 1" unfolding b100_def by (rule div_add_self2) simp
  finally have 2: "a100 \<le> b100 + 1" .
  have 3: "b400 \<le> a400" unfolding a400_def b400_def by (rule zdiv_mono1) simp_all
  have "DayFromYear (y + 1) = 365 * (y + 1 - 1970) + b4 - b100 + b400"
    by (simp add: DayFromYear_def b4_def b100_def b400_def)
  moreover have "DayFromYear (y + 1 + 1) = 365 * (y + 1 + 1 - 1970) + a4 - a100 + a400"
    by (simp add: DayFromYear_def a4_def a100_def a400_def)
  ultimately have "DayFromYear (y + 1) < DayFromYear (y + 1 + 1)" using 1 2 3 by simp
  then show "((d, y + 1), (d, y)) \<in> measure (\<lambda>(d, y). nat (d + 1 - DayFromYear (y + 1)))"
    using a by simp
qed

declare year_down.simps [simp del] year_up.simps [simp del]

definition YearFromTime :: "int \<Rightarrow> int" where
  "YearFromTime t = (let d = Day t in year_up d (year_down d (1970 + (d * 400) div 146097)))"

definition InLeapYear :: "int \<Rightarrow> int" where
  "InLeapYear t = (if DaysInYear (YearFromTime t) = 366 then 1 else 0)"

definition DayWithinYear :: "int \<Rightarrow> int" where
  "DayWithinYear t = Day t - DayFromYear (YearFromTime t)"

definition MonthFromTime :: "int \<Rightarrow> int" where
  "MonthFromTime t =
     (let d = DayWithinYear t; l = InLeapYear t
      in if d < 31 then 0
         else if d < 59 + l then 1
         else if d < 90 + l then 2
         else if d < 120 + l then 3
         else if d < 151 + l then 4
         else if d < 181 + l then 5
         else if d < 212 + l then 6
         else if d < 243 + l then 7
         else if d < 273 + l then 8
         else if d < 304 + l then 9
         else if d < 334 + l then 10
         else 11)"

definition DateFromTime :: "int \<Rightarrow> int" where
  "DateFromTime t =
     (let d = DayWithinYear t; l = InLeapYear t; m = MonthFromTime t
      in if m = 0 then d + 1
         else if m = 1 then d - 30
         else if m = 2 then d - 58 - l
         else if m = 3 then d - 89 - l
         else if m = 4 then d - 119 - l
         else if m = 5 then d - 150 - l
         else if m = 6 then d - 180 - l
         else if m = 7 then d - 211 - l
         else if m = 8 then d - 242 - l
         else if m = 9 then d - 272 - l
         else if m = 10 then d - 303 - l
         else d - 333 - l)"

definition HourFromTime :: "int \<Rightarrow> int" where
  "HourFromTime t = (t div 3600000) mod 24"

definition MinFromTime :: "int \<Rightarrow> int" where
  "MinFromTime t = (t div 60000) mod 60"

definition SecFromTime :: "int \<Rightarrow> int" where
  "SecFromTime t = (t div 1000) mod 60"

definition msFromTime :: "int \<Rightarrow> int" where
  "msFromTime t = t mod 1000"

text \<open>A number in a fixed count of decimal digits, zero-padded.\<close>

primrec pad :: "nat \<Rightarrow> nat \<Rightarrow> string" where
  "pad 0 n = []"
| "pad (Suc w) n = pad w (n div 10) @ [char_of (48 + n mod 10)]"

text \<open>
  The date part is \<^verbatim>\<open>YYYY-MM-DD\<close>; a year outside 0 to 9999 is written with its sign and
  six digits.
\<close>

definition year_text :: "int \<Rightarrow> string" where
  "year_text y =
     (if 0 \<le> y \<and> y \<le> 9999 then pad 4 (nat y)
      else (if y < 0 then CHR ''-'' else CHR ''+'') # pad 6 (nat \<bar>y\<bar>))"

definition toISOString :: "int \<Rightarrow> string" where
  "toISOString t =
     year_text (YearFromTime t) @ ''-'' @ pad 2 (nat (MonthFromTime t + 1)) @ ''-''
       @ pad 2 (nat (DateFromTime t)) @ ''T'' @ pad 2 (nat (HourFromTime t)) @ '':''
       @ pad 2 (nat (MinFromTime t)) @ '':'' @ pad 2 (nat (SecFromTime t)) @ ''.''
       @ pad 3 (nat (msFromTime t)) @ ''Z''"

text \<open>\<^verbatim>\<open>s.split(c)[0]\<close>: the text before the first \<open>c\<close>.\<close>

definition split_first :: "char \<Rightarrow> string \<Rightarrow> string" where
  "split_first c s = takeWhile (\<lambda>x. x \<noteq> c) s"

text \<open>
  \<^verbatim>\<open>toISOString\<close> of a \<^verbatim>\<open>Date\<close> object throws a \<^verbatim>\<open>RangeError\<close> when the date is invalid, and
  an exception thrown by the callback of \<^verbatim>\<open>filter\<close> ends the \<^verbatim>\<open>filter\<close>.
\<close>

datatype js_error = RangeError

definition Date_toISOString :: "int option \<Rightarrow> js_error + string" where
  "Date_toISOString d = (case d of None \<Rightarrow> Inl RangeError | Some t \<Rightarrow> Inr (toISOString t))"

fun filter_throwing :: "('a \<Rightarrow> js_error + bool) \<Rightarrow> 'a list \<Rightarrow> js_error + 'a list" where
  "filter_throwing p [] = Inr []"
| "filter_throwing p (x # xs) =
     (case p x of
        Inl e \<Rightarrow> Inl e
      | Inr b \<Rightarrow>
          (case filter_throwing p xs of
             Inl e \<Rightarrow> Inl e
           | Inr ys \<Rightarrow> Inr (if b then x # ys else ys)))"

definition getAttendanceByDate ::
  "(string \<Rightarrow> int option) \<Rightarrow> (int \<Rightarrow> string) \<Rightarrow> int option \<Rightarrow> MemStorage
   \<Rightarrow> js_error + obj list" where
  "getAttendanceByDate P D date s =
     (case Date_toISOString date of
        Inl e \<Rightarrow> Inl e
      | Inr text \<Rightarrow>
          (let dateString = split_first CHR ''T'' text
           in filter_throwing
                (\<lambda>a. case Date_toISOString (new_Date P D (jsprop a ''date'')) of
                        Inl e \<Rightarrow> Inl e
                      | Inr text' \<Rightarrow> Inr (split_first CHR ''T'' text' = dateString))
                (Map_values (attendance s))))"



definition date_of :: "(string \<Rightarrow> int option) \<Rightarrow> (int \<Rightarrow> string) \<Rightarrow> obj \<Rightarrow> int option" where
  "date_of P D a = new_Date P D (jsprop a ''date'')"



section \<open>The tables and their insert schemas (shared/schema.ts)\<close>

text \<open>
  A table lists its columns; for a column, what matters to validation is its type,
  whether it is \<^verbatim>\<open>notNull\<close> and whether it has a default (a \<^verbatim>\<open>serial\<close> primary key is both).
\<close>

datatype coltype =
  PgSerial | PgText | PgInteger | PgDate | PgDecimal | PgBoolean | PgTimestamp | PgTextArray

record column =
  col_name :: string
  col_type :: coltype
  notNull :: bool
  hasDefault :: bool

definition col :: "string \<Rightarrow> coltype \<Rightarrow> bool \<Rightarrow> bool \<Rightarrow> column" where
  "col n t nn d = \<lparr> col_name = n, col_type = t, notNull = nn, hasDefault = d \<rparr>"

definition users_table :: "column list" where
  "users_table =
     [col ''id'' PgSerial True True, col ''username'' PgText True False,
      col ''password'' PgText True False, col ''role'' PgText True True,
      col ''fullName'' PgText True False, col ''email'' PgText True False,
      col ''avatar'' PgText False False]"

definition students_table :: "column list" where
  "students_table =
     [col ''id'' PgSerial True True, col ''studentId'' PgText True False,
      col ''firstName'' PgText True False, col ''lastName'' PgText True False,
      col ''gender'' PgText True False, col ''dateOfBirth'' PgDate True False,
      col ''email'' PgText True False, col ''phone'' PgText False False,
      col ''address'' PgText False False, col ''guardianName'' PgText False False,
      col ''guardianPhone'' PgText False False, col ''gradeLevel'' PgText True False,
      col ''section'' PgText True False, col ''enrollmentDate'' PgDate True False,
      col ''avatar'' PgText False False]"

definition teachers_table :: "column list" where
  "teachers_table =
     [col ''id'' PgSerial True True, col ''teacherId'' PgText True False,
      col ''firstName'' PgText True False, col ''lastName'' PgText True False,
      col ''email'' PgText True False, col ''phone'' PgText False False,
      col ''address'' PgText False False, col ''qualification'' PgText False False,
      col ''joinDate'' PgDate True False, col ''subjects'' PgTextArray False False,
      col ''avatar'' PgText False False, col ''userId'' PgInteger False False]"

definition classes_table :: "column list" where
  "classes_table =
     [col ''id'' PgSerial True True, col ''className'' PgText True False,
      col ''classCode'' PgText True False, col ''gradeLevel'' PgText True False,
      col ''section'' PgText False False, col ''description'' PgText False False,
      col ''teacherId'' PgInteger False False, col ''schedule'' PgText False False,
      col ''roomNumber'' PgText False False, col ''academicYear'' PgText True False]"

definition classEnrollments_table :: "column list" where
  "classEnrollments_table =
     [col ''id'' PgSerial True True, col ''classId'' PgInteger True False,
      col ''studentId'' PgInteger True False, col ''enrollmentDate'' PgDate True False]"

definition attendance_table :: "column list" where
  "attendance_table =
     [col ''id'' PgSerial True True, col ''classId'' PgInteger True False,
      col ''studentId'' PgInteger True False, col ''date'' PgDate True False,
      col ''status'' PgText True False, col ''notes'' PgText False False]"

definition grades_table :: "column list" where
  "grades_table =
     [col ''id'' PgSerial True True, col ''classId'' PgInteger True False,
      col ''studentId'' PgInteger True False, col ''assignmentName'' PgText True False,
      col ''assignmentType'' PgText True False, col ''maxScore'' PgDecimal True False,
      col ''score'' PgDecimal True False, col ''gradedDate'' PgDate True False,
      col ''comments'' PgText False False]"

definition events_table :: "column list" where
  "events_table =
     [col ''id'' PgSerial True True, col ''title'' PgText True False,
      col ''description'' PgText False False, col ''startDate'' PgDate True False,
      col ''endDate'' PgDate False False, col ''startTime'' PgText False False,
      col ''endTime'' PgText False False, col ''allDay'' PgBoolean False True,
      col ''location'' PgText False False, col ''type'' PgText True False]"

definition activities_table :: "column list" where
  "activities_table =
     [col ''id'' PgSerial True True, col ''userId'' PgInteger False False,
      col ''action'' PgText True False, col ''details'' PgText False False,
      col ''timestamp'' PgTimestamp True True]"

text \<open>
  \<^verbatim>\<open>createInsertSchema\<close>, \<^verbatim>\<open>omit\<close>, \<^verbatim>\<open>partial\<close>, \<^verbatim>\<open>safeParse\<close> and \<^verbatim>\<open>format\<close> belong to the
  packages drizzle-zod and zod, which the repository uses and does not contain. They are
  modelled after those packages: a text, date or decimal column is validated as a string,
  an integer column as a number, a boolean column as a boolean, a timestamp as a
  \<^verbatim>\<open>Date\<close>, a text array as an array of strings; a column that is not \<^verbatim>\<open>notNull\<close> may be
  null or missing, a \<^verbatim>\<open>notNull\<close> column with a default may be missing. Parsing an object
  reports every failing field and otherwise returns the schema's fields that the input
  has, in the schema's order, without any other key.
\<close>

datatype ztype = ZString | ZNumber | ZBoolean | ZDate | ZStringArray

record zfield =
  z_name :: string
  z_type :: ztype
  z_nullable :: bool
  z_optional :: bool

type_synonym zschema = "zfield list"

type_synonym zissue = "string list \<times> string"

definition zod_type :: "coltype \<Rightarrow> ztype" where
  "zod_type t =
     (case t of
        PgSerial \<Rightarrow> ZNumber | PgInteger \<Rightarrow> ZNumber | PgText \<Rightarrow> ZString | PgDate \<Rightarrow> ZString
      | PgDecimal \<Rightarrow> ZString | PgBoolean \<Rightarrow> ZBoolean | PgTimestamp \<Rightarrow> ZDate
      | PgTextArray \<Rightarrow> ZStringArray)"

definition createInsertSchema :: "column list \<Rightarrow> zschema" where
  "createInsertSchema table =
     map (\<lambda>c. \<lparr> z_name = col_name c, z_type = zod_type (col_type c),
                z_nullable = (\<not> notNull c), z_optional = (\<not> notNull c \<or> hasDefault c) \<rparr>)
       table"

definition omit :: "string list \<Rightarrow> zschema \<Rightarrow> zschema" where
  "omit names schema = filter (\<lambda>f. z_name f \<notin> set names) schema"

definition partial :: "zschema \<Rightarrow> zschema" where
  "partial schema = map (\<lambda>f. f\<lparr>z_optional := True\<rparr>) schema"

definition insertUserSchema :: zschema where
  "insertUserSchema = omit [''id''] (createInsertSchema users_table)"

definition insertStudentSchema :: zschema where
  "insertStudentSchema = omit [''id''] (createInsertSchema students_table)"

definition insertTeacherSchema :: zschema where
  "insertTeacherSchema = omit [''id''] (createInsertSchema teachers_table)"

definition insertClassSchema :: zschema where
  "insertClassSchema = omit [''id''] (createInsertSchema classes_table)"

definition insertClassEnrollmentSchema :: zschema where
  "insertClassEnrollmentSchema = omit [''id''] (createInsertSchema classEnrollments_table)"

definition insertAttendanceSchema :: zschema where
  "insertAttendanceSchema = omit [''id''] (createInsertSchema attendance_table)"

definition insertGradeSchema :: zschema where
  "insertGradeSchema = omit [''id''] (createInsertSchema grades_table)"

definition insertEventSchema :: zschema where
  "insertEventSchema = omit [''id''] (createInsertSchema events_table)"

definition insertActivitySchema :: zschema where
  "insertActivitySchema = omit [''id'', ''timestamp''] (createInsertSchema activities_table)"

fun type_name :: "jsval \<Rightarrow> string" where
  "type_name JUndefined = ''undefined''"
| "type_name JNull = ''null''"
| "type_name (JBool b) = ''boolean''"
| "type_name (JNum n) = ''number''"
| "type_name (JStr s) = ''string''"
| "type_name (JDate t) = ''date''"
| "type_name (JArr xs) = ''array''"
| "type_name (JObj kvs) = ''object''"

definition mismatch :: "string \<Rightarrow> string list \<Rightarrow> jsval \<Rightarrow> zissue list" where
  "mismatch expected path v =
     [(path, if v = JUndefined then ''Required''
             else ''Expected '' @ expected @ '', received '' @ type_name v)]"

fun check_value :: "ztype \<Rightarrow> string list \<Rightarrow> jsval \<Rightarrow> zissue list" where
  "check_value ZString path v = (case v of JStr s \<Rightarrow> [] | _ \<Rightarrow> mismatch ''string'' path v)"
| "check_value ZNumber path v = (case v of JNum n \<Rightarrow> [] | _ \<Rightarrow> mismatch ''number'' path v)"
| "check_value ZBoolean path v = (case v of JBool b \<Rightarrow> [] | _ \<Rightarrow> mismatch ''boolean'' path v)"
| "check_value ZDate path v = (case v of JDate t \<Rightarrow> [] | _ \<Rightarrow> mismatch ''date'' path v)"
| "check_value ZStringArray path v =
     (case v of
        JArr xs \<Rightarrow>
          concat (map (\<lambda>(i, x). case x of JStr s \<Rightarrow> [] | _ \<Rightarrow> mismatch ''string'' (path @ [show_nat i]) x)
                    (enumerate 0 xs))
      | _ \<Rightarrow> mismatch ''array'' path v)"

definition check_field :: "obj \<Rightarrow> zfield \<Rightarrow> zissue list" where
  "check_field input f =
     (case map_of input (z_name f) of
        None \<Rightarrow> if z_optional f then [] else [([z_name f], ''Required'')]
      | Some v \<Rightarrow>
          if (v = JNull \<and> z_nullable f) \<or> (v = JUndefined \<and> z_optional f) then []
          else check_value (z_type f) [z_name f] v)"

definition safeParse :: "zschema \<Rightarrow> jsval \<Rightarrow> zissue list + obj" where
  "safeParse schema v =
     (case v of
        JObj input \<Rightarrow>
          (let issues = concat (map (check_field input) schema)
           in if issues = []
              then Inr (List.map_filter
                          (\<lambda>f. map_option (\<lambda>x. (z_name f, x)) (map_of input (z_name f))) schema)
              else Inl issues)
      | _ \<Rightarrow> Inl (mismatch ''object'' [] v))"

text \<open>\<^verbatim>\<open>error.format()\<close>: the messages, nested along the path of each issue.\<close>

definition push_error :: "string \<Rightarrow> obj \<Rightarrow> obj" where
  "push_error msg cur =
     AList.update ''_errors''
       (JArr ((case map_of cur ''_errors'' of Some (JArr es) \<Rightarrow> es | _ \<Rightarrow> []) @ [JStr msg])) cur"

fun add_issue :: "string list \<Rightarrow> string \<Rightarrow> obj \<Rightarrow> obj" where
  "add_issue [] msg cur = push_error msg cur"
| "add_issue (el # rest) msg cur =
     AList.update el
       (JObj (add_issue rest msg
                (case map_of cur el of Some (JObj child) \<Rightarrow> child | _ \<Rightarrow> [(''_errors'', JArr [])])))
       cur"

definition format :: "zissue list \<Rightarrow> jsval" where
  "format issues = JObj (fold (\<lambda>(path, msg). add_issue path msg) issues [(''_errors'', JArr [])])"

section \<open>The REST handlers (server/routes.ts)\<close>

text \<open>
  A request carries its \<^verbatim>\<open>:id\<close> route parameter, its query parameters and its parsed JSON
  body; a response is a status and a JSON body (\<^verbatim>\<open>undefined\<close> for an empty one). The
  host's date functions are gathered in one record. A handler returns the response
  and the store it leaves; \<open>now\<close> is the reading of the clock when the activity is logged.
\<close>

record request =
  param_id :: string
  query :: "(string \<times> string) list"
  body :: jsval

record response =
  status :: nat
  payload :: jsval

record host =
  Date_parse :: "string \<Rightarrow> int option"
  Date_toString :: "int \<Rightarrow> string"
  Date_toLocaleDateString :: "int \<Rightarrow> string"

definition error_response :: "nat \<Rightarrow> string \<Rightarrow> response" where
  "error_response code msg = \<lparr> status = code, payload = JObj [(''error'', JStr msg)] \<rparr>"

definition validation_response :: "zissue list \<Rightarrow> response" where
  "validation_response issues = \<lparr> status = 400, payload = JObj [(''error'', format issues)] \<rparr>"

definition json_response :: "nat \<Rightarrow> jsval \<Rightarrow> response" where
  "json_response code v = \<lparr> status = code, payload = v \<rparr>"

text \<open>
  \<^verbatim>\<open>parseInt(s)\<close> with no radix: leading white space is skipped, a sign is read, \<^verbatim>\<open>0x\<close>
  selects base 16, the longest run of digits is the value; \<^verbatim>\<open>NaN\<close> (\<open>None\<close>) without a
  digit. Characters are ASCII here.
\<close>

definition is_js_space :: "char \<Rightarrow> bool" where
  "is_js_space c = (c \<in> {CHR 0x09, CHR 0x0A, CHR 0x0B, CHR 0x0C, CHR 0x0D, CHR '' ''})"

definition digit_value :: "char \<Rightarrow> nat option" where
  "digit_value c =
     (let n = (of_char c :: nat)
      in if 48 \<le> n \<and> n \<le> 57 then Some (n - 48)
         else if 97 \<le> n \<and> n \<le> 122 then Some (n - 87)
         else if 65 \<le> n \<and> n \<le> 90 then Some (n - 55)
         else None)"

definition is_radix_digit :: "nat \<Rightarrow> char \<Rightarrow> bool" where
  "is_radix_digit R c = (case digit_value c of None \<Rightarrow> False | Some v \<Rightarrow> v < R)"

definition digits_value :: "nat \<Rightarrow> string \<Rightarrow> nat" where
  "digits_value R ds =
     foldl (\<lambda>acc c. acc * R + (case digit_value c of None \<Rightarrow> 0 | Some v \<Rightarrow> v)) 0 ds"

definition parseInt :: "string \<Rightarrow> int option" where
  "parseInt str =
     (let s1 = dropWhile is_js_space str;
          neg = (case s1 of [] \<Rightarrow> False | c # r \<Rightarrow> c = CHR ''-'');
          s2 = (case s1 of [] \<Rightarrow> [] | c # r \<Rightarrow> if c = CHR ''+'' \<or> c = CHR ''-'' then r else s1);
          hex = (take 2 s2 = ''0x'' \<or> take 2 s2 = ''0X'');
          R = (if hex then 16 else 10);
          s3 = (if hex then drop 2 s2 else s2);
          Z = takeWhile (is_radix_digit R) s3
      in if Z = [] then None
         else Some ((if neg then - 1 else 1) * int (digits_value R Z)))"





text \<open>
  The activity a handler logs, a template literal's rendering of a value, and a
  property read through \<^verbatim>\<open>?.\<close> from a record that may be missing.
\<close>

definition activity :: "jsval \<Rightarrow> string \<Rightarrow> string \<Rightarrow> obj" where
  "activity userId action details =
     [(''userId'', userId), (''action'', JStr action), (''details'', JStr details)]"

definition str :: "host \<Rightarrow> jsval \<Rightarrow> string" where
  "str h v = toStr (Date_toString h) v"

definition opt_prop :: "obj option \<Rightarrow> string \<Rightarrow> jsval" where
  "opt_prop ob k = (case ob of None \<Rightarrow> JUndefined | Some x \<Rightarrow> jsprop x k)"

definition post_users :: "host \<Rightarrow> request \<Rightarrow> int \<Rightarrow> MemStorage \<Rightarrow> response \<times> MemStorage" where
  "post_users h req now s =
     (case safeParse insertUserSchema (body req) of
        Inl issues \<Rightarrow> (validation_response issues, s)
      | Inr data \<Rightarrow>
          (let (user, s1) = createUser data s;
               (logged, s2) = createActivity
                 (activity (jsprop user ''id'') ''Added User''
                    (''Added user '' @ str h (jsprop user ''username'') @ '' with role ''
                       @ str h (jsprop user ''role''))) now s1
           in (json_response 201 (JObj user), s2)))"

definition put_users :: "host \<Rightarrow> request \<Rightarrow> int \<Rightarrow> MemStorage \<Rightarrow> response \<times> MemStorage" where
  "put_users h req now s =
     (case parseInt (param_id req) of
        None \<Rightarrow> (error_response 400 ''Invalid user ID'', s)
      | Some i \<Rightarrow>
          (case safeParse (partial insertUserSchema) (body req) of
             Inl issues \<Rightarrow> (validation_response issues, s)
           | Inr data \<Rightarrow>
               (case updateUser i data s of
                  (None, s1) \<Rightarrow> (error_response 404 ''User not found'', s1)
                | (Some updatedUser, s1) \<Rightarrow>
                    (let (logged, s2) = createActivity
                           (activity (JNum i) ''Updated User''
                              (''Updated user '' @ str h (jsprop updatedUser ''username''))) now s1
                     in (json_response 200 (JObj updatedUser), s2)))))"

definition post_students :: "host \<Rightarrow> request \<Rightarrow> int \<Rightarrow> MemStorage \<Rightarrow> response \<times> MemStorage" where
  "post_students h req now s =
     (case safeParse insertStudentSchema (body req) of
        Inl issues \<Rightarrow> (validation_response issues, s)
      | Inr data \<Rightarrow>
          (let (student, s1) = createStudent data s;
               (logged, s2) = createActivity
                 (activity (JNum 1) ''Added Student''
                    (''Added '' @ str h (jsprop student ''firstName'') @ '' ''
                       @ str h (jsprop student ''lastName'') @ '' to Grade ''
                       @ str h (jsprop student ''gradeLevel'') @ ''-''
                       @ str h (jsprop student ''section''))) now s1
           in (json_response 201 (JObj student), s2)))"

definition put_students :: "host \<Rightarrow> request \<Rightarrow> int \<Rightarrow> MemStorage \<Rightarrow> response \<times> MemStorage" where
  "put_students h req now s =
     (case parseInt (param_id req) of
        None \<Rightarrow> (error_response 400 ''Invalid student ID'', s)
      | Some i \<Rightarrow>
          (case safeParse (partial insertStudentSchema) (body req) of
             Inl issues \<Rightarrow> (validation_response issues, s)
           | Inr data \<Rightarrow>
               (case updateStudent i data s of
                  (None, s1) \<Rightarrow> (error_response 404 ''Student not found'', s1)
                | (Some updatedStudent, s1) \<Rightarrow>
                    (let (logged, s2) = createActivity
                           (activity (JNum 1) ''Updated Student''
                              (''Updated '' @ str h (jsprop updatedStudent ''firstName'') @ '' ''
                                 @ str h (jsprop updatedStudent ''lastName'')
                                 @ [CHR 0x27] @ ''s information'')) now s1
                     in (json_response 200 (JObj updatedStudent), s2)))))"

definition post_teachers :: "host \<Rightarrow> request \<Rightarrow> int \<Rightarrow> MemStorage \<Rightarrow> response \<times> MemStorage" where
  "post_teachers h req now s =
     (case safeParse insertTeacherSchema (body req) of
        Inl issues \<Rightarrow> (validation_response issues, s)
      | Inr data \<Rightarrow>
          (let (teacher, s1) = createTeacher data s;
               (logged, s2) = createActivity
                 (activity (JNum 1) ''Added Teacher''
                    (''Added '' @ str h (jsprop teacher ''firstName'') @ '' ''
                       @ str h (jsprop teacher ''lastName'') @ '' to the faculty'')) now s1
           in (json_response 201 (JObj teacher), s2)))"

definition put_teachers :: "host \<Rightarrow> request \<Rightarrow> int \<Rightarrow> MemStorage \<Rightarrow> response \<times> MemStorage" where
  "put_teachers h req now s =
     (case parseInt (param_id req) of
        None \<Rightarrow> (error_response 400 ''Invalid teacher ID'', s)
      | Some i \<Rightarrow>
          (case safeParse (partial insertTeacherSchema) (body req) of
             Inl issues \<Rightarrow> (validation_response issues, s)
           | Inr data \<Rightarrow>
               (case updateTeacher i data s of
                  (None, s1) \<Rightarrow> (error_response 404 ''Teacher not found'', s1)
                | (Some updatedTeacher, s1) \<Rightarrow>
                    (let (logged, s2) = createActivity
                           (activity (JNum 1) ''Updated Teacher''
                              (''Updated '' @ str h (jsprop updatedTeacher ''firstName'') @ '' ''
                                 @ str h (jsprop updatedTeacher ''lastName'')
                                 @ [CHR 0x27] @ ''s information'')) now s1
                     in (json_response 200 (JObj updatedTeacher), s2)))))"

definition post_classes :: "host \<Rightarrow> request \<Rightarrow> int \<Rightarrow> MemStorage \<Rightarrow> response \<times> MemStorage" where
  "post_classes h req now s =
     (case safeParse insertClassSchema (body req) of
        Inl issues \<Rightarrow> (validation_response issues, s)
      | Inr data \<Rightarrow>
          (let (classItem, s1) = createClass data s;
               (logged, s2) = createActivity
                 (activity (JNum 1) ''Added Class''
                    (''Added '' @ str h (jsprop classItem ''className'') @ '' (''
                       @ str h (jsprop classItem ''classCode'') @ '') for Grade ''
                       @ str h (jsprop classItem ''gradeLevel''))) now s1
           in (json_response 201 (JObj classItem), s2)))"

definition put_classes :: "host \<Rightarrow> request \<Rightarrow> int \<Rightarrow> MemStorage \<Rightarrow> response \<times> MemStorage" where
  "put_classes h req now s =
     (case parseInt (param_id req) of
        None \<Rightarrow> (error_response 400 ''Invalid class ID'', s)
      | Some i \<Rightarrow>
          (case safeParse (partial insertClassSchema) (body req) of
             Inl issues \<Rightarrow> (validation_response issues, s)
           | Inr data \<Rightarrow>
               (case updateClass i data s of
                  (None, s1) \<Rightarrow> (error_response 404 ''Class not found'', s1)
                | (Some updatedClass, s1) \<Rightarrow>
                    (let (logged, s2) = createActivity
                           (activity (JNum 1) ''Updated Class''
                              (''Updated '' @ str h (jsprop updatedClass ''className'') @ '' (''
                                 @ str h (jsprop updatedClass ''classCode'') @ '') information''))
                           now s1
                     in (json_response 200 (JObj updatedClass), s2)))))"

definition post_class_enrollments ::
  "host \<Rightarrow> request \<Rightarrow> int \<Rightarrow> MemStorage \<Rightarrow> response \<times> MemStorage" where
  "post_class_enrollments h req now s =
     (case safeParse insertClassEnrollmentSchema (body req) of
        Inl issues \<Rightarrow> (validation_response issues, s)
      | Inr data \<Rightarrow>
          (let (enrollment, s1) = createClassEnrollment data s;
               student = (case jsprop enrollment ''studentId'' of
                            JNum i \<Rightarrow> getStudent i s1 | _ \<Rightarrow> None);
               classItem = (case jsprop enrollment ''classId'' of
                              JNum i \<Rightarrow> getClass i s1 | _ \<Rightarrow> None);
               (logged, s2) = createActivity
                 (activity (JNum 1) ''Enrolled Student''
                    (''Enrolled '' @ str h (opt_prop student ''firstName'') @ '' ''
                       @ str h (opt_prop student ''lastName'') @ '' in ''
                       @ str h (opt_prop classItem ''className''))) now s1
           in (json_response 201 (JObj enrollment), s2)))"

definition post_attendance :: "host \<Rightarrow> request \<Rightarrow> int \<Rightarrow> MemStorage \<Rightarrow> response \<times> MemStorage" where
  "post_attendance h req now s =
     (case safeParse insertAttendanceSchema (body req) of
        Inl issues \<Rightarrow> (validation_response issues, s)
      | Inr data \<Rightarrow>
          (let (a, s1) = createAttendance data s;
               student = (case jsprop a ''studentId'' of JNum i \<Rightarrow> getStudent i s1 | _ \<Rightarrow> None);
               classItem = (case jsprop a ''classId'' of JNum i \<Rightarrow> getClass i s1 | _ \<Rightarrow> None);
               (logged, s2) = createActivity
                 (activity (JNum 1) ''Marked Attendance''
                    (''Marked '' @ str h (opt_prop student ''firstName'') @ '' ''
                       @ str h (opt_prop student ''lastName'') @ '' as ''
                       @ str h (jsprop a ''status'') @ '' for ''
                       @ str h (opt_prop classItem ''className''))) now s1
           in (json_response 201 (JObj a), s2)))"

definition put_attendance :: "host \<Rightarrow> request \<Rightarrow> int \<Rightarrow> MemStorage \<Rightarrow> response \<times> MemStorage" where
  "put_attendance h req now s =
     (case parseInt (param_id req) of
        None \<Rightarrow> (error_response 400 ''Invalid attendance ID'', s)
      | Some i \<Rightarrow>
          (case safeParse (partial insertAttendanceSchema) (body req) of
             Inl issues \<Rightarrow> (validation_response issues, s)
           | Inr data \<Rightarrow>
               (case updateAttendance i data s of
                  (None, s1) \<Rightarrow> (error_response 404 ''Attendance record not found'', s1)
                | (Some updatedAttendance, s1) \<Rightarrow>
                    (let (logged, s2) = createActivity
                           (activity (JNum 1) ''Updated Attendance''
                              (''Updated attendance record to ''
                                 @ str h (jsprop updatedAttendance ''status''))) now s1
                     in (json_response 200 (JObj updatedAttendance), s2)))))"

definition post_grades :: "host \<Rightarrow> request \<Rightarrow> int \<Rightarrow> MemStorage \<Rightarrow> response \<times> MemStorage" where
  "post_grades h req now s =
     (case safeParse insertGradeSchema (body req) of
        Inl issues \<Rightarrow> (validation_response issues, s)
      | Inr data \<Rightarrow>
          (let (grade, s1) = createGrade data s;
               student = (case jsprop grade ''studentId'' of JNum i \<Rightarrow> getStudent i s1 | _ \<Rightarrow> None);
               classItem = (case jsprop grade ''classId'' of JNum i \<Rightarrow> getClass i s1 | _ \<Rightarrow> None);
               (logged, s2) = createActivity
                 (activity (JNum 1) ''Added Grade''
                    (''Added grade for '' @ str h (opt_prop student ''firstName'') @ '' ''
                       @ str h (opt_prop student ''lastName'') @ '' in ''
                       @ str h (opt_prop classItem ''className'') @ '': ''
                       @ str h (jsprop grade ''score'') @ ''/''
                       @ str h (jsprop grade ''maxScore''))) now s1
           in (json_response 201 (JObj grade), s2)))"

definition put_grades :: "host \<Rightarrow> request \<Rightarrow> int \<Rightarrow> MemStorage \<Rightarrow> response \<times> MemStorage" where
  "put_grades h req now s =
     (case parseInt (param_id req) of
        None \<Rightarrow> (error_response 400 ''Invalid grade ID'', s)
      | Some i \<Rightarrow>
          (case safeParse (partial insertGradeSchema) (body req) of
             Inl issues \<Rightarrow> (validation_response issues, s)
           | Inr data \<Rightarrow>
               (case updateGrade i data s of
                  (None, s1) \<Rightarrow> (error_response 404 ''Grade not found'', s1)
                | (Some updatedGrade, s1) \<Rightarrow>
                    (let (logged, s2) = createActivity
                           (activity (JNum 1) ''Updated Grade''
                              (''Updated grade to '' @ str h (jsprop updatedGrade ''score'') @ ''/''
                                 @ str h (jsprop updatedGrade ''maxScore''))) now s1
                     in (json_response 200 (JObj updatedGrade), s2)))))"

definition locale_date :: "host \<Rightarrow> jsval \<Rightarrow> string" where
  "locale_date h v =
     (case new_Date (Date_parse h) (Date_toString h) v of
        None \<Rightarrow> ''Invalid Date''
      | Some t \<Rightarrow> Date_toLocaleDateString h t)"

definition post_events :: "host \<Rightarrow> request \<Rightarrow> int \<Rightarrow> MemStorage \<Rightarrow> response \<times> MemStorage" where
  "post_events h req now s =
     (case safeParse insertEventSchema (body req) of
        Inl issues \<Rightarrow> (validation_response issues, s)
      | Inr data \<Rightarrow>
          (let (event, s1) = createEvent data s;
               (logged, s2) = createActivity
                 (activity (JNum 1) ''Added Event''
                    (''Added event '' @ [CHR 0x22] @ str h (jsprop event ''title'') @ [CHR 0x22]
                       @ '' on '' @ locale_date h (jsprop event ''startDate''))) now s1
           in (json_response 201 (JObj event), s2)))"

definition put_events :: "host \<Rightarrow> request \<Rightarrow> int \<Rightarrow> MemStorage \<Rightarrow> response \<times> MemStorage" where
  "put_events h req now s =
     (case parseInt (param_id req) of
        None \<Rightarrow> (error_response 400 ''Invalid event ID'', s)
      | Some i \<Rightarrow>
          (case safeParse (partial insertEventSchema) (body req) of
             Inl issues \<Rightarrow> (validation_response issues, s)
           | Inr data \<Rightarrow>
               (case updateEvent i data s of
                  (None, s1) \<Rightarrow> (error_response 404 ''Event not found'', s1)
                | (Some updatedEvent, s1) \<Rightarrow>
                    (let (logged, s2) = createActivity
                           (activity (JNum 1) ''Updated Event''
                              (''Updated event '' @ [CHR 0x22] @ str h (jsprop updatedEvent ''title'')
                                 @ [CHR 0x22])) now s1
                     in (json_response 200 (JObj updatedEvent), s2)))))"

text \<open>
  The fifteen routes that create or update a record, the handler of each, the schema it
  validates the body with, and whether it reads an \<^verbatim>\<open>:id\<close> first.
\<close>

datatype route =
    POST_users | PUT_users | POST_students | PUT_students | POST_teachers | PUT_teachers
  | POST_classes | PUT_classes | POST_class_enrollments | POST_attendance | PUT_attendance
  | POST_grades | PUT_grades | POST_events | PUT_events

fun handler :: "route \<Rightarrow> host \<Rightarrow> request \<Rightarrow> int \<Rightarrow> MemStorage \<Rightarrow> response \<times> MemStorage" where
  "handler POST_users = post_users"
| "handler PUT_users = put_users"
| "handler POST_students = post_students"
| "handler PUT_students = put_students"
| "handler POST_teachers = post_teachers"
| "handler PUT_teachers = put_teachers"
| "handler POST_classes = post_classes"
| "handler PUT_classes = put_classes"
| "handler POST_class_enrollments = post_class_enrollments"
| "handler POST_attendance = post_attendance"
| "handler PUT_attendance = put_attendance"
| "handler POST_grades = post_grades"
| "handler PUT_grades = put_grades"
| "handler POST_events = post_events"
| "handler PUT_events = put_events"

fun route_schema :: "route \<Rightarrow> zschema" where
  "route_schema POST_users = insertUserSchema"
| "route_schema PUT_users = partial insertUserSchema"
| "route_schema POST_students = insertStudentSchema"
| "route_schema PUT_students = partial insertStudentSchema"
| "route_schema POST_teachers = insertTeacherSchema"
| "route_schema PUT_teachers = partial insertTeacherSchema"
| "route_schema POST_classes = insertClassSchema"
| "route_schema PUT_classes = partial insertClassSchema"
| "route_schema POST_class_enrollments = insertClassEnrollmentSchema"
| "route_schema POST_attendance = insertAttendanceSchema"
| "route_schema PUT_attendance = partial insertAttendanceSchema"
| "route_schema POST_grades = insertGradeSchema"
| "route_schema PUT_grades = partial insertGradeSchema"
| "route_schema POST_events = insertEventSchema"
| "route_schema PUT_events = partial insertEventSchema"

fun reads_id :: "route \<Rightarrow> bool" where
  "reads_id PUT_users = True"
| "reads_id PUT_students = True"
| "reads_id PUT_teachers = True"
| "reads_id PUT_classes = True"
| "reads_id PUT_attendance = True"
| "reads_id PUT_grades = True"
| "reads_id PUT_events = True"
| "reads_id r = False"

section \<open>Identifiers and references along a run\<close>

text \<open>
  The identifier a call gives to the record it creates in the collection of \<open>e\<close> (the
  \<^verbatim>\<open>id\<close> of the record the method returns), and the identifiers given along a sequence
  of calls.
\<close>

fun created_id :: "entity \<Rightarrow> call \<Rightarrow> MemStorage \<Rightarrow> int option" where
  "created_id e (Create e' ins now) s =
     (if e' = e
      then (case jsprop (fst (create_of e' ins now s)) ''id'' of
              JNum i \<Rightarrow> Some i
            | _ \<Rightarrow> None)
      else None)"
| "created_id e (Update e' i p) s = None"
| "created_id e (Delete e' i) s = None"

fun ids_assigned :: "entity \<Rightarrow> call list \<Rightarrow> MemStorage \<Rightarrow> int list" where
  "ids_assigned e [] s = []"
| "ids_assigned e (c # cs) s =
     (case created_id e c s of None \<Rightarrow> [] | Some i \<Rightarrow> [i]) @ ids_assigned e cs (exec c s)"

text \<open>
  A teacher's \<^verbatim>\<open>userId\<close>, when it is a number, is the key of a stored user; and the calls
  that cannot break this: every call but the creation or update of a teacher whose
  resulting \<^verbatim>\<open>userId\<close> names no stored user, and the deletion of a user some teacher names.
\<close>

definition refs_user :: "MemStorage \<Rightarrow> obj \<Rightarrow> bool" where
  "refs_user s t = (case jsprop t ''userId'' of JNum u \<Rightarrow> Map_has (users s) u | _ \<Rightarrow> True)"

definition teacher_user_refs :: "MemStorage \<Rightarrow> bool" where
  "teacher_user_refs s = list_all (refs_user s) (getTeachers s)"

fun keeps_refs :: "call \<Rightarrow> MemStorage \<Rightarrow> bool" where
  "keeps_refs (Create e ins now) s = (e = Teacher \<longrightarrow> refs_user s (spread [] ins))"
| "keeps_refs (Update e i p) s =
     (e = Teacher \<longrightarrow>
        (case getTeacher i s of
           None \<Rightarrow> True
         | Some t \<Rightarrow> refs_user s (spread (spread [] t) p)))"
| "keeps_refs (Delete e i) s =
     (e = User \<longrightarrow> list_all (\<lambda>t. jsprop t ''userId'' \<noteq> JNum i) (getTeachers s))"

section \<open>CSV export (client/src/lib/exportData.ts)\<close>






section \<open>Vocabulary of the proofs\<close>





definition created_record :: "entity \<Rightarrow> obj \<Rightarrow> int \<Rightarrow> MemStorage \<Rightarrow> obj" where
  "created_record e ins now s =
     (if e = Activity then AList.update ''timestamp'' (JDate now) (with_id ins (counter e s))
      else with_id ins (counter e s))"

definition by_key_desc :: "('a \<Rightarrow> int option) \<Rightarrow> 'a \<Rightarrow> 'a \<Rightarrow> int option" where
  "by_key_desc k a b = (case (k b, k a) of (Some tb, Some ta) \<Rightarrow> Some (tb - ta) | _ \<Rightarrow> None)"

definition newer_eq :: "('a \<Rightarrow> int option) \<Rightarrow> 'a \<Rightarrow> 'a \<Rightarrow> bool" where
  "newer_eq k a b = (\<exists>ta tb. k a = Some ta \<and> k b = Some tb \<and> tb \<le> ta)"

definition stamped :: "MemStorage \<Rightarrow> bool" where
  "stamped s = (\<forall>a \<in> set (Map_values (activities s)). \<exists>t. jsprop a ''timestamp'' = JDate t)"

definition below_counter :: "entity \<Rightarrow> MemStorage \<Rightarrow> bool" where
  "below_counter e s = (\<forall>k. Map_has (coll e s) k \<longrightarrow> k < counter e s)"

definition wf_store :: "MemStorage \<Rightarrow> bool" where
  "wf_store s = (\<forall>e. \<forall>r \<in> snd ` set (coll e s). wf_obj r)"

section \<open>Properties\<close>

subsection \<open>Objects and maps\<close>

lemma map_of_spread:
  "distinct (map fst src) \<Longrightarrow> map_of (spread target src) = map_of target ++ map_of src"
  unfolding spread_def
proof (induction src arbitrary: target)
  case Nil
  then show ?case by simp
next
  case (Cons a src)
  obtain k v where a: "a = (k, v)" by (cases a)
  from Cons.prems a have k: "k \<notin> fst ` set src" and d: "distinct (map fst src)" by auto
  have none: "map_of src k = None" using k by (simp add: map_of_eq_None_iff)
  have step: "(map_of target)(k \<mapsto> v) ++ map_of src = map_of target ++ map_of ((k, v) # src)"
  proof (rule ext)
    fix x
    show "((map_of target)(k \<mapsto> v) ++ map_of src) x = (map_of target ++ map_of ((k, v) # src)) x"
      using none by (cases "x = k") (simp_all add: map_add_def split: option.splits)
  qed
  have "map_of (fold (\<lambda>(k, v). AList.update k v) (a # src) target)
      = map_of (fold (\<lambda>(k, v). AList.update k v) src (AList.update k v target))"
    by (simp add: a)
  also have "\<dots> = map_of (AList.update k v target) ++ map_of src"
    by (rule Cons.IH[OF d])
  also have "\<dots> = (map_of target)(k \<mapsto> v) ++ map_of src"
    by (simp only: update_conv')
  also have "\<dots> = map_of target ++ map_of (a # src)"
    by (simp only: step a)
  finally show ?case .
qed

lemma Map_set_get: "Map_get (Map_set k v m) j = (if j = k then Some v else Map_get m j)"
  by (simp add: Map_get_def Map_set_def update_conv')

lemma Map_set_keys: "Map_has m k \<Longrightarrow> map fst (Map_set k v m) = map fst m"
  by (auto simp: Map_has_def Map_set_def update_keys map_of_eq_None_iff)

lemma Map_delete_get: "Map_get (snd (Map_delete k m)) j = (if j = k then None else Map_get m j)"
  by (simp add: Map_get_def Map_delete_def delete_conv')

lemma Map_delete_fst: "fst (Map_delete k m) = (Map_get m k \<noteq> None)"
  by (simp add: Map_get_def Map_delete_def Map_has_def)

lemma jsprop_update_same: "jsprop (AList.update k v ob) k = v"
  by (simp add: jsprop_def update_conv')

lemma jsprop_update_other: "k' \<noteq> k \<Longrightarrow> jsprop (AList.update k v ob) k' = jsprop ob k'"
  by (simp add: jsprop_def update_conv')

lemma Map_has_set: "Map_has (Map_set k v m) j = (j = k \<or> Map_has m j)"
  by (simp add: Map_has_def Map_set_def update_conv')

lemma Map_has_delete: "Map_has (AList.delete k m) j = (j \<noteq> k \<and> Map_has m j)"
  by (simp add: Map_has_def delete_conv')

lemma Map_has_get: "Map_has m k = (Map_get m k \<noteq> None)"
  by (simp add: Map_has_def Map_get_def)

lemma Map_get_Some_has: "Map_get m k = Some v \<Longrightarrow> Map_has m k"
  by (simp add: Map_has_def Map_get_def)


lemma values_update_subset: "snd ` set (AList.update k v al) \<subseteq> insert v (snd ` set al)"
  by (induction al) auto

lemma all_values_update:
  "P v \<Longrightarrow> \<forall>t \<in> snd ` set al. P t \<Longrightarrow> \<forall>t \<in> snd ` set (Map_set k v al). P t"
  unfolding Map_set_def using values_update_subset[of k v al] by blast

lemma values_delete_subset: "snd ` set (AList.delete k al) \<subseteq> snd ` set al"
  by (induction al) auto

lemma floor_rat_numeral_div [simp]:
  "\<lfloor>(numeral a :: rat) / numeral b\<rfloor> = numeral a div numeral b"
  by (metis floor_divide_of_int_eq of_int_numeral)

lemma floor_rat_one_div [simp]: "\<lfloor>(1 :: rat) / numeral b\<rfloor> = 1 div numeral b"
  by (metis floor_divide_of_int_eq of_int_numeral of_int_1)

lemmas create_defs = createUser_def createStudent_def createTeacher_def createClass_def
  createClassEnrollment_def createAttendance_def createGrade_def createEvent_def createActivity_def
lemmas update_defs = updateUser_def updateStudent_def updateTeacher_def updateClass_def
  updateAttendance_def updateGrade_def updateEvent_def
lemmas delete_defs = deleteUser_def deleteStudent_def deleteTeacher_def deleteClass_def
  deleteClassEnrollment_def deleteAttendance_def deleteGrade_def deleteEvent_def

subsection \<open>The effect of a call on the collections and counters\<close>

lemma create_of_fst: "fst (create_of e ins now s) = created_record e ins now s"
  by (cases e) (simp_all add: create_defs created_record_def Let_def)

lemma created_record_id: "jsprop (created_record e ins now s) ''id'' = JNum (counter e s)"
  by (simp add: created_record_def with_id_def jsprop_update_same jsprop_update_other)

lemma coll_create:
  "coll e (exec (Create e' ins now) s) =
     (if e' = e then Map_set (counter e s) (created_record e ins now s) (coll e s) else coll e s)"
  by (cases e; cases e') (simp_all add: create_defs created_record_def Let_def)

lemma coll_update:
  "coll e (exec (Update e' i p) s) =
     (if e' = e \<and> update_of e \<noteq> None
      then (case Map_get (coll e s) i of
              None \<Rightarrow> coll e s
            | Some old \<Rightarrow> Map_set i (spread (spread [] old) p) (coll e s))
      else coll e s)"
  by (cases e; cases e') (simp_all add: update_defs Let_def split: option.splits)

lemma coll_delete:
  "coll e (exec (Delete e' i) s) =
     (if e' = e \<and> delete_of e \<noteq> None then AList.delete i (coll e s) else coll e s)"
  by (cases e; cases e') (simp_all add: delete_defs Map_delete_def)

lemma counter_exec:
  "counter e (exec c s) =
     (case c of Create e' ins now \<Rightarrow> (if e' = e then counter e s + 1 else counter e s)
      | _ \<Rightarrow> counter e s)"
proof (cases c)
  case (Create e' ins now)
  then show ?thesis by (cases e; cases e') (simp_all add: create_defs Let_def)
next
  case (Update e' i p)
  then show ?thesis by (cases e; cases e') (simp_all add: update_defs Let_def split: option.splits)
next
  case (Delete e' i)
  then show ?thesis by (cases e; cases e') (simp_all add: delete_defs Map_delete_def)
qed

subsection \<open>The store the constructor builds\<close>

lemma run_append: "run (cs @ cs') s = run cs' (run cs s)"
  by (induction cs arbitrary: s) simp_all

lemma new_MemStorage_run:
  "new_MemStorage clk = run (Create User admin_user 0 # seed_calls clk) constructor_fields"
  by (simp add: new_MemStorage_def seedSampleData_def)

lemma run_new_MemStorage:
  "run cs (new_MemStorage clk)
     = run ((Create User admin_user 0 # seed_calls clk) @ cs) constructor_fields"
  unfolding run_append new_MemStorage_run ..

lemma seeded_users: "users (new_MemStorage clk) = [(1, admin_user @ [(''id'', JNum 1)])]"
  by code_simp

lemma seeded_teacher_users:
  "map (\<lambda>t. jsprop t ''userId'') (getTeachers (new_MemStorage clk))
     = [JNum 1, JUndefined, JUndefined]"
  by code_simp

lemma seeded_statuses:
  "map (\<lambda>a. jsprop a ''status'') (Map_values (attendance (new_MemStorage clk)))
     = [JStr ''present'', JStr ''present'', JStr ''late'', JStr ''present'', JStr ''absent'',
        JStr ''present'', JStr ''present'']"
  by code_simp

lemma seeded_counters:
  "map (\<lambda>e. counter e (new_MemStorage clk))
       [User, Student, Teacher, Class, ClassEnrollment, Attendance, Grade, Event, Activity]
     = [2, 6, 4, 4, 6, 8, 6, 5, 6]"
  by code_simp

text \<open>Every record the server can hold is an object with no property twice.\<close>

lemma wf_nil: "wf_obj []"
  by (simp add: wf_obj_def)

lemma wf_update: "wf_obj ob \<Longrightarrow> wf_obj (AList.update k v ob)"
  by (simp add: wf_obj_def distinct_update)

lemma wf_spread: "wf_obj target \<Longrightarrow> wf_obj (spread target src)"
  unfolding spread_def
  by (induction src arbitrary: target) (auto simp: wf_update)

lemma wf_created_record: "wf_obj (created_record e ins now s)"
  by (simp add: created_record_def with_id_def wf_update wf_spread wf_nil)

lemma wf_store_exec: "wf_store s \<Longrightarrow> wf_store (exec c s)"
proof -
  assume inv: "wf_store s"
  have "\<forall>r \<in> snd ` set (coll e (exec c s)). wf_obj r" for e
  proof -
    from inv have old: "\<forall>r \<in> snd ` set (coll e s). wf_obj r" by (simp add: wf_store_def)
    show ?thesis
    proof (cases c)
      case (Create e' ins now)
      show ?thesis
        unfolding Create coll_create
        using all_values_update[OF wf_created_record old] old by simp
    next
      case (Update e' i p)
      show ?thesis
      proof (cases "Map_get (coll e s) i")
        case None
        then show ?thesis unfolding Update coll_update using old by simp
      next
        case (Some r)
        have "wf_obj (spread (spread [] r) p)" by (simp add: wf_spread wf_nil)
        then show ?thesis
          unfolding Update coll_update using all_values_update[OF _ old] old Some by simp
      qed
    next
      case (Delete e' i)
      have "snd ` set (coll e (exec c s)) \<subseteq> snd ` set (coll e s)"
        unfolding Delete coll_delete using values_delete_subset[of i "coll e s"] by simp
      then show ?thesis using old by blast
    qed
  qed
  then show ?thesis by (simp add: wf_store_def)
qed

lemma wf_store_run: "wf_store s \<Longrightarrow> wf_store (run cs s)"
  by (induction cs arbitrary: s) (simp_all add: wf_store_exec)

lemma wf_store_constructor: "wf_store constructor_fields"
proof -
  have "coll e constructor_fields = []" for e
    by (cases e) (simp_all add: constructor_fields_def)
  then show ?thesis by (simp add: wf_store_def)
qed

lemma stored_wf:
  "Map_get (coll e (run cs (new_MemStorage clk))) i = Some r \<Longrightarrow> wf_obj r"
proof -
  assume g: "Map_get (coll e (run cs (new_MemStorage clk))) i = Some r"
  have "wf_store (run cs (new_MemStorage clk))"
    unfolding run_new_MemStorage by (rule wf_store_run[OF wf_store_constructor])
  moreover from g have "r \<in> snd ` set (coll e (run cs (new_MemStorage clk)))"
    by (force simp: Map_get_def dest: map_of_SomeD)
  ultimately show ?thesis unfolding wf_store_def by blast
qed

subsection \<open>Delete and update\<close>

text \<open>
  C5. \<^verbatim>\<open>delete(id)\<close> returns true exactly when the collection held a record under \<open>id\<close>;
  afterwards a lookup of \<open>id\<close> finds nothing and a second \<^verbatim>\<open>delete(id)\<close> returns false.
  The call touches no other record, no other collection and no counter. This holds for
  each of the eight \<^verbatim>\<open>delete\<close> methods (\<^verbatim>\<open>deleteStudent\<close> is \<open>delete_of Student\<close>, and
  \<^verbatim>\<open>getStudent i s\<close> is \<open>Map_get (coll Student s) i\<close>).
\<close>

theorem delete_contract:
  assumes "delete_of e = Some del"
  shows "fst (del i s) = (Map_get (coll e s) i \<noteq> None)
       \<and> Map_get (coll e (snd (del i s))) i = None
       \<and> fst (del i (snd (del i s))) = False
       \<and> (\<forall>j. j \<noteq> i \<longrightarrow> Map_get (coll e (snd (del i s))) j = Map_get (coll e s) j)
       \<and> (\<forall>e'. e' \<noteq> e \<longrightarrow> coll e' (snd (del i s)) = coll e' s)
       \<and> (\<forall>e'. counter e' (snd (del i s)) = counter e' s)"
proof -
  have frame: "(\<forall>e'. e' \<noteq> e \<longrightarrow> coll e' (snd (del i s)) = coll e' s)
       \<and> (\<forall>e'. counter e' (snd (del i s)) = counter e' s)"
  proof (intro conjI allI impI)
    fix e' assume "e' \<noteq> e"
    then show "coll e' (snd (del i s)) = coll e' s"
      using assms by (cases e; cases e') (simp_all add: delete_defs Map_delete_def)
  next
    fix e'
    show "counter e' (snd (del i s)) = counter e' s"
      using assms by (cases e; cases e') (simp_all add: delete_defs Map_delete_def)
  qed
  have main: "fst (del i s) = (Map_get (coll e s) i \<noteq> None)
       \<and> Map_get (coll e (snd (del i s))) i = None
       \<and> fst (del i (snd (del i s))) = False
       \<and> (\<forall>j. j \<noteq> i \<longrightarrow> Map_get (coll e (snd (del i s))) j = Map_get (coll e s) j)"
    using assms
    by (cases e) (auto simp: delete_defs Map_delete_def Map_get_def Map_has_def delete_conv')
  from main frame show ?thesis by blast
qed

theorem delete_contract_witness:
  "delete_of Student = Some deleteStudent
   \<and> fst (deleteStudent 1 (run [Create Student [(''studentId'', JStr ''STU001'')] 0,
                                   Create Student [(''studentId'', JStr ''STU002'')] 0]
                               constructor_fields))
   \<and> getStudent 1 (snd (deleteStudent 1 (run [Create Student [(''studentId'', JStr ''STU001'')] 0,
                                   Create Student [(''studentId'', JStr ''STU002'')] 0]
                               constructor_fields))) = None
   \<and> \<not> fst (deleteStudent 1 (snd (deleteStudent 1
                               (run [Create Student [(''studentId'', JStr ''STU001'')] 0,
                                     Create Student [(''studentId'', JStr ''STU002'')] 0]
                                 constructor_fields))))
   \<and> getStudent 2 (snd (deleteStudent 1 (run [Create Student [(''studentId'', JStr ''STU001'')] 0,
                                   Create Student [(''studentId'', JStr ''STU002'')] 0]
                               constructor_fields)))
       = Some [(''studentId'', JStr ''STU002''), (''id'', JNum 2)]"
proof -
  let ?s0 = "run [Create Student [(''studentId'', JStr ''STU001'')] 0,
                  Create Student [(''studentId'', JStr ''STU002'')] 0] constructor_fields"
  have d: "delete_of Student = Some deleteStudent" by simp
  have stored: "students ?s0 = [(1, [(''studentId'', JStr ''STU001''), (''id'', JNum 1)]),
                                (2, [(''studentId'', JStr ''STU002''), (''id'', JNum 2)])]"
    by (simp add: createStudent_def constructor_fields_def with_id_def spread_def Map_set_def Let_def)
  have pre: "Map_get (coll Student ?s0) 1 \<noteq> None" "(2::int) \<noteq> 1"
    "Map_get (coll Student ?s0) 2 = Some [(''studentId'', JStr ''STU002''), (''id'', JNum 2)]"
    by (simp_all only: coll.simps stored Map_get_def) simp_all
  from delete_contract[OF d, of 1 ?s0] pre d show ?thesis
    by (simp only: coll.simps getStudent_def) simp
qed

lemma spread_nil_lookup: "wf_obj ob \<Longrightarrow> map_of (spread [] ob) = map_of ob"
  by (simp add: wf_obj_def map_of_spread)

text \<open>
  C3. \<^verbatim>\<open>update(id, p)\<close> on a stored record: every field that \<open>p\<close> names takes the value
  \<open>p\<close> gives it, every other field keeps its value; the record stays under the same key at
  the same place, and no other record, collection or counter changes. When no record is
  stored under \<open>id\<close> the call returns \<^verbatim>\<open>undefined\<close> (\<open>None\<close>) and the store is the one it
  was. This holds for each of the seven \<^verbatim>\<open>update\<close> methods.
\<close>

theorem update_merges:
  assumes "update_of e = Some upd" and "wf_obj old" and "wf_obj p"
  shows "(Map_get (coll e s) i = None \<longrightarrow> upd i p s = (None, s))
       \<and> (Map_get (coll e s) i = Some old \<longrightarrow>
            (\<exists>new s'. upd i p s = (Some new, s')
               \<and> (\<forall>f. map_of new f = (case map_of p f of Some v \<Rightarrow> Some v | None \<Rightarrow> map_of old f))
               \<and> Map_get (coll e s') i = Some new
               \<and> (\<forall>j. j \<noteq> i \<longrightarrow> Map_get (coll e s') j = Map_get (coll e s) j)
               \<and> map fst (coll e s') = map fst (coll e s)
               \<and> (\<forall>e'. e' \<noteq> e \<longrightarrow> coll e' s' = coll e' s)
               \<and> (\<forall>e'. counter e' s' = counter e' s)))"
proof (intro conjI impI)
  assume "Map_get (coll e s) i = None"
  then show "upd i p s = (None, s)"
    using assms(1) by (cases e) (auto simp: update_defs)
next
  assume old: "Map_get (coll e s) i = Some old"
  define new where "new = spread (spread [] old) p"
  define s' where "s' = snd (upd i p s)"
  have res: "upd i p s = (Some new, s')"
    using assms(1) old by (cases e) (auto simp: update_defs new_def s'_def Let_def)
  have fields: "\<forall>f. map_of new f = (case map_of p f of Some v \<Rightarrow> Some v | None \<Rightarrow> map_of old f)"
    using assms(2,3)
    by (simp add: new_def wf_obj_def map_of_spread map_add_def)
  have has: "Map_has (coll e s) i" using old by (simp add: Map_has_def Map_get_def)
  have this_coll: "coll e s' = Map_set i new (coll e s)"
    using assms(1) old by (cases e) (auto simp: update_defs new_def s'_def Let_def)
  have frame1: "\<forall>e'. e' \<noteq> e \<longrightarrow> coll e' s' = coll e' s"
  proof (intro allI impI)
    fix e' assume "e' \<noteq> e"
    then show "coll e' s' = coll e' s"
      using assms(1) old by (cases e; cases e') (simp_all add: update_defs s'_def Let_def)
  qed
  have frame2: "\<forall>e'. counter e' s' = counter e' s"
  proof
    fix e'
    show "counter e' s' = counter e' s"
      using assms(1) old by (cases e; cases e') (simp_all add: update_defs s'_def Let_def)
  qed
  show "\<exists>new s'. upd i p s = (Some new, s')
               \<and> (\<forall>f. map_of new f = (case map_of p f of Some v \<Rightarrow> Some v | None \<Rightarrow> map_of old f))
               \<and> Map_get (coll e s') i = Some new
               \<and> (\<forall>j. j \<noteq> i \<longrightarrow> Map_get (coll e s') j = Map_get (coll e s) j)
               \<and> map fst (coll e s') = map fst (coll e s)
               \<and> (\<forall>e'. e' \<noteq> e \<longrightarrow> coll e' s' = coll e' s)
               \<and> (\<forall>e'. counter e' s' = counter e' s)"
    using res fields frame1 frame2
    by (intro exI[of _ new] exI[of _ s']) (simp add: this_coll Map_set_get Map_set_keys[OF has])
qed

theorem update_merges_witness:
  "update_of Student = Some updateStudent
   \<and> updateStudent 7 [(''section'', JStr ''B'')]
         (snd (createStudent [(''studentId'', JStr ''STU001''), (''section'', JStr ''A'')]
            constructor_fields))
       = (None, snd (createStudent [(''studentId'', JStr ''STU001''), (''section'', JStr ''A'')]
            constructor_fields))
   \<and> fst (updateStudent 1 [(''section'', JStr ''B'')]
         (snd (createStudent [(''studentId'', JStr ''STU001''), (''section'', JStr ''A'')]
            constructor_fields)))
       = Some [(''studentId'', JStr ''STU001''), (''section'', JStr ''B''), (''id'', JNum 1)]"
proof -
  let ?s0 = "snd (createStudent [(''studentId'', JStr ''STU001''), (''section'', JStr ''A'')]
            constructor_fields)"
  let ?old = "[(''studentId'', JStr ''STU001''), (''section'', JStr ''A''), (''id'', JNum 1)]"
  have u: "update_of Student = Some updateStudent" by simp
  have stored: "students ?s0 = [(1, ?old)]"
    by (simp add: createStudent_def constructor_fields_def with_id_def spread_def Map_set_def Let_def)
  have wf: "wf_obj ?old" "wf_obj [(''section'', JStr ''B'')]"
    by (simp_all add: wf_obj_def)
  have pre: "Map_get (coll Student ?s0) 7 = None" "Map_get (coll Student ?s0) 1 = Some ?old"
    by (simp_all only: coll.simps stored Map_get_def) simp_all
  from update_merges[OF u wf, of ?s0 7] pre(1)
  have absent: "updateStudent 7 [(''section'', JStr ''B'')] ?s0 = (None, ?s0)" by blast
  from update_merges[OF u wf, of ?s0 1] pre(2)
  obtain new s' where r: "updateStudent 1 [(''section'', JStr ''B'')] ?s0 = (Some new, s')"
    by blast
  have "fst (updateStudent 1 [(''section'', JStr ''B'')] ?s0)
      = Some [(''studentId'', JStr ''STU001''), (''section'', JStr ''B''), (''id'', JNum 1)]"
    using r by (simp add: updateStudent_def Map_get_def stored spread_def Let_def)
  with absent u show ?thesis by simp
qed

subsection \<open>Dashboard statistics\<close>




subsection \<open>The activity feed\<close>

lemma mset_insort_cmp: "mset (insort_cmp cmp x ys) = add_mset x (mset ys)"
  by (induction ys) simp_all

lemma mset_Array_sort: "mset (Array_sort cmp xs) = mset xs"
  unfolding Array_sort_def by (induction xs) (simp_all add: mset_insort_cmp)

lemma set_insort_cmp: "set (insort_cmp cmp x ys) = insert x (set ys)"
  by (induction ys) auto

lemma set_Array_sort: "set (Array_sort cmp xs) = set xs"
  unfolding Array_sort_def by (induction xs) (simp_all add: set_insort_cmp)

lemma sorted_insort_cmp:
  assumes "\<forall>y \<in> set ys. k y \<noteq> None" and "k x \<noteq> None"
    and "sorted_wrt (newer_eq k) ys"
  shows "sorted_wrt (newer_eq k) (insort_cmp (by_key_desc k) x ys)"
  using assms
proof (induction ys)
  case Nil
  then show ?case by simp
next
  case (Cons y ys)
  from Cons.prems obtain tx ty where t: "k x = Some tx" "k y = Some ty" by auto
  have c: "(case by_key_desc k x y of None \<Rightarrow> 0 | Some v \<Rightarrow> v) = ty - tx"
    using t by (simp add: by_key_desc_def)
  show ?case
  proof (cases "ty \<le> tx")
    case True
    have "newer_eq k x y" using t True by (simp add: newer_eq_def)
    moreover have "\<forall>z \<in> set ys. newer_eq k x z"
    proof
      fix z assume z: "z \<in> set ys"
      with Cons.prems(3) have "newer_eq k y z" by simp
      then show "newer_eq k x z" using t True by (auto simp: newer_eq_def)
    qed
    ultimately show ?thesis using Cons.prems(3) c True
      by simp
  next
    case False
    have ih: "sorted_wrt (newer_eq k) (insort_cmp (by_key_desc k) x ys)"
      using Cons.IH Cons.prems by simp
    have "newer_eq k y x" using t False by (simp add: newer_eq_def)
    then have "\<forall>z \<in> set (insort_cmp (by_key_desc k) x ys). newer_eq k y z"
      using Cons.prems(3) by (simp add: set_insort_cmp)
    then show ?thesis using ih c False by simp
  qed
qed

lemma sorted_Array_sort:
  "\<forall>y \<in> set xs. k y \<noteq> None \<Longrightarrow> sorted_wrt (newer_eq k) (Array_sort (by_key_desc k) xs)"
proof (induction xs)
  case Nil
  then show ?case by (simp add: Array_sort_def)
next
  case (Cons x xs)
  have "sorted_wrt (newer_eq k) (insort_cmp (by_key_desc k) x (Array_sort (by_key_desc k) xs))"
    using Cons by (intro sorted_insort_cmp) (simp_all add: set_Array_sort)
  then show ?case by (simp add: Array_sort_def)
qed

lemma getActivities_by_key:
  "getActivities P D s = Array_sort (by_key_desc (timestamp_ms P D)) (Map_values (activities s))"
  by (simp add: getActivities_def by_key_desc_def[abs_def])

lemma activities_exec:
  "activities (exec c s) =
     (case c of Create Activity ins now \<Rightarrow>
        Map_set (activityIdCounter s)
          (AList.update ''timestamp'' (JDate now) (with_id ins (activityIdCounter s))) (activities s)
      | _ \<Rightarrow> activities s)"
proof (cases c)
  case (Create e ins now)
  then show ?thesis by (cases e) (simp_all add: create_defs Let_def)
next
  case (Update e i p)
  then show ?thesis by (cases e) (simp_all add: update_defs Let_def split: option.splits)
next
  case (Delete e i)
  then show ?thesis by (cases e) (simp_all add: delete_defs Map_delete_def)
qed

lemma stamped_exec: "stamped s \<Longrightarrow> stamped (exec c s)"
proof -
  assume st: "stamped s"
  show ?thesis
  proof (cases "\<exists>ins now. c = Create Activity ins now")
    case True
    then obtain ins now where c: "c = Create Activity ins now" by blast
    let ?a = "AList.update ''timestamp'' (JDate now) (with_id ins (activityIdCounter s))"
    have "set (Map_values (activities (exec c s))) \<subseteq> insert ?a (set (Map_values (activities s)))"
      unfolding activities_exec c by (simp add: Map_values_def Map_set_def values_update_subset)
    moreover have "jsprop ?a ''timestamp'' = JDate now" by (rule jsprop_update_same)
    ultimately show ?thesis using st unfolding stamped_def by blast
  next
    case False
    then have "activities (exec c s) = activities s"
      unfolding activities_exec by (auto split: call.splits entity.splits)
    then show ?thesis using st by (simp add: stamped_def)
  qed
qed

lemma stamped_run: "stamped s \<Longrightarrow> stamped (run cs s)"
  by (induction cs arbitrary: s) (simp_all add: stamped_exec)

lemma stamped_constructor: "stamped constructor_fields"
  by (simp add: stamped_def constructor_fields_def Map_values_def)

text \<open>
  C4. In every store the server can hold (the store the constructor builds, after any
  sequence of calls), whatever the clock readings of the calls that logged the
  activities, \<^verbatim>\<open>getActivities\<close> returns the stored activities (each as often as it is
  stored) newest first: of two neighbours in the result, the first one's timestamp is at
  least the second's.
\<close>

theorem activities_newest_first:
  "mset (getActivities P D (run cs (new_MemStorage clk)))
     = mset (Map_values (activities (run cs (new_MemStorage clk))))
   \<and> (\<forall>i. Suc i < length (getActivities P D (run cs (new_MemStorage clk))) \<longrightarrow>
        (\<exists>t1 t2. timestamp_ms P D (getActivities P D (run cs (new_MemStorage clk)) ! i) = Some t1
               \<and> timestamp_ms P D (getActivities P D (run cs (new_MemStorage clk)) ! Suc i) = Some t2
               \<and> t2 \<le> t1))"
proof -
  let ?s = "run cs (new_MemStorage clk)"
  let ?k = "timestamp_ms P D"
  have "stamped ?s"
    unfolding run_new_MemStorage by (rule stamped_run[OF stamped_constructor])
  then have valid: "\<forall>a \<in> set (Map_values (activities ?s)). ?k a \<noteq> None"
    by (auto simp: stamped_def timestamp_ms_def)
  have sorted: "sorted_wrt (newer_eq ?k) (getActivities P D ?s)"
    unfolding getActivities_by_key by (rule sorted_Array_sort[OF valid])
  have adj: "\<forall>i. Suc i < length (getActivities P D ?s) \<longrightarrow>
      newer_eq ?k (getActivities P D ?s ! i) (getActivities P D ?s ! Suc i)"
    using sorted by (simp add: sorted_wrt_iff_nth_less)
  show ?thesis
    using adj by (simp add: getActivities_by_key mset_Array_sort newer_eq_def)
qed

text \<open>
  The server starts on a host whose clock advances by a millisecond from one sample
  activity to the next, and an activity is logged a minute later.
\<close>

theorem activities_newest_first_witness:
  "map (\<lambda>a. jsprop a ''action'')
     (getActivities (\<lambda>x. None) (\<lambda>t. [])
        (run [Create Activity [(''userId'', JNum 1), (''action'', JStr ''Deleted Event'')]
                1705312860000]
           (new_MemStorage (sample_clock\<lparr>activity_time := \<lambda>k. 1705312800000 + int k\<rparr>))))
     = [JStr ''Deleted Event'', JStr ''Updated Teacher'', JStr ''Added Class'',
        JStr ''Marked Attendance'', JStr ''Updated Grade'', JStr ''Added Student'']
   \<and> map (timestamp_ms (\<lambda>x. None) (\<lambda>t. []))
     (getActivities (\<lambda>x. None) (\<lambda>t. [])
        (run [Create Activity [(''userId'', JNum 1), (''action'', JStr ''Deleted Event'')]
                1705312860000]
           (new_MemStorage (sample_clock\<lparr>activity_time := \<lambda>k. 1705312800000 + int k\<rparr>))))
     = [Some 1705312860000, Some 1705312800004, Some 1705312800003, Some 1705312800002,
        Some 1705312800001, Some 1705312800000]
   \<and> (\<exists>t1 t2.
        timestamp_ms (\<lambda>x. None) (\<lambda>t. [])
          (getActivities (\<lambda>x. None) (\<lambda>t. [])
             (run [Create Activity [(''userId'', JNum 1), (''action'', JStr ''Deleted Event'')]
                     1705312860000]
                (new_MemStorage (sample_clock\<lparr>activity_time := \<lambda>k. 1705312800000 + int k\<rparr>)))
           ! 0) = Some t1
      \<and> timestamp_ms (\<lambda>x. None) (\<lambda>t. [])
          (getActivities (\<lambda>x. None) (\<lambda>t. [])
             (run [Create Activity [(''userId'', JNum 1), (''action'', JStr ''Deleted Event'')]
                     1705312860000]
                (new_MemStorage (sample_clock\<lparr>activity_time := \<lambda>k. 1705312800000 + int k\<rparr>)))
           ! Suc 0) = Some t2
      \<and> t2 \<le> t1)"
proof -
  let ?clk = "sample_clock\<lparr>activity_time := \<lambda>k. 1705312800000 + int k\<rparr>"
  let ?cs = "[Create Activity [(''userId'', JNum 1), (''action'', JStr ''Deleted Event'')]
                1705312860000]"
  let ?r = "getActivities (\<lambda>x. None) (\<lambda>t. []) (run ?cs (new_MemStorage ?clk))"
  have actions: "map (\<lambda>a. jsprop a ''action'') ?r
     = [JStr ''Deleted Event'', JStr ''Updated Teacher'', JStr ''Added Class'',
        JStr ''Marked Attendance'', JStr ''Updated Grade'', JStr ''Added Student'']"
    by code_simp
  have times: "map (timestamp_ms (\<lambda>x. None) (\<lambda>t. [])) ?r
     = [Some 1705312860000, Some 1705312800004, Some 1705312800003, Some 1705312800002,
        Some 1705312800001, Some 1705312800000]"
    by code_simp
  have len: "Suc 0 < length ?r" by code_simp
  from activities_newest_first[of "\<lambda>x. None" "\<lambda>t. []" ?cs ?clk] len
  have "\<exists>t1 t2. timestamp_ms (\<lambda>x. None) (\<lambda>t. []) (?r ! 0) = Some t1
           \<and> timestamp_ms (\<lambda>x. None) (\<lambda>t. []) (?r ! Suc 0) = Some t2 \<and> t2 \<le> t1"
    by blast
  with actions times show ?thesis by blast
qed

subsection \<open>Identifiers\<close>

lemma below_counter_exec: "below_counter e s \<Longrightarrow> below_counter e (exec c s)"
proof (cases c)
  case (Create e' ins now)
  assume "below_counter e s"
  then show ?thesis unfolding below_counter_def Create
    by (auto simp: coll_create counter_exec Map_has_set simp del: exec.simps)
next
  case (Update e' i p)
  assume "below_counter e s"
  then show ?thesis unfolding below_counter_def Update
    by (auto simp: coll_update counter_exec Map_has_set simp del: exec.simps split: option.splits dest: Map_get_Some_has)
next
  case (Delete e' i)
  assume "below_counter e s"
  then show ?thesis unfolding below_counter_def Delete
    by (auto simp: coll_delete counter_exec Map_has_delete simp del: exec.simps)
qed

lemma below_counter_run: "below_counter e s \<Longrightarrow> below_counter e (run cs s)"
  by (induction cs arbitrary: s) (simp_all add: below_counter_exec)

lemma below_counter_constructor: "below_counter e constructor_fields"
  by (cases e) (simp_all add: below_counter_def constructor_fields_def Map_has_def)

lemma created_id_eq:
  "created_id e c s =
     (case c of Create e' ins now \<Rightarrow> (if e' = e then Some (counter e s) else None) | _ \<Rightarrow> None)"
  by (cases c) (simp_all add: create_of_fst created_record_id)

lemma counter_mono: "counter e s \<le> counter e (exec c s)"
  by (simp add: counter_exec del: exec.simps split: call.splits)

lemma ids_assigned_ge: "i \<in> set (ids_assigned e cs s) \<Longrightarrow> counter e s \<le> i"
proof (induction cs arbitrary: s)
  case Nil
  then show ?case by simp
next
  case (Cons c cs)
  from Cons.prems consider "created_id e c s = Some i" | "i \<in> set (ids_assigned e cs (exec c s))"
    by (auto split: option.splits)
  then show ?case
  proof cases
    case 1
    then show ?thesis by (auto simp: created_id_eq split: call.splits if_splits)
  next
    case 2
    from Cons.IH[OF 2] counter_mono[of e s c] show ?thesis by linarith
  qed
qed

lemma ids_assigned_increasing: "sorted_wrt (<) (ids_assigned e cs s)"
proof (induction cs arbitrary: s)
  case Nil
  then show ?case by simp
next
  case (Cons c cs)
  show ?case
  proof (cases "created_id e c s")
    case None
    then show ?thesis using Cons.IH by simp
  next
    case (Some i)
    then have i: "i = counter e s" and next_c: "counter e (exec c s) = counter e s + 1"
      by (auto simp: created_id_eq counter_exec simp del: exec.simps split: call.splits if_splits)
    have "\<forall>j \<in> set (ids_assigned e cs (exec c s)). i < j"
      using ids_assigned_ge[of _ e cs "exec c s"] i next_c by fastforce
    then show ?thesis using Some Cons.IH by simp
  qed
qed

text \<open>
  C6. Along every sequence of calls on a store the server can hold (the store the
  constructor builds, after any sequence of calls), the identifiers given to the records
  created in one collection are strictly increasing, so no two created records receive
  the same identifier; and no identifier under which the collection holds a record at
  some moment (whether or not that record is deleted later) is given to a record created
  afterwards. Counters are integers here; the source's counter is a double, exact up to
  \<open>2 ^ 53\<close> creations per collection.
\<close>

theorem identifiers_never_reused:
  "distinct (ids_assigned e cs (run cs0 (new_MemStorage clk)))
   \<and> sorted_wrt (<) (ids_assigned e cs (run cs0 (new_MemStorage clk)))
   \<and> (\<forall>i. Map_has (coll e (run cs0 (new_MemStorage clk))) i
          \<longrightarrow> i \<notin> set (ids_assigned e cs (run cs0 (new_MemStorage clk))))"
proof -
  let ?s = "run cs0 (new_MemStorage clk)"
  have inc: "sorted_wrt (<) (ids_assigned e cs ?s)" by (rule ids_assigned_increasing)
  then have d: "distinct (ids_assigned e cs ?s)"
    by (simp add: strict_sorted_iff)
  have "below_counter e ?s"
    unfolding run_new_MemStorage by (rule below_counter_run[OF below_counter_constructor])
  then have "\<forall>i. Map_has (coll e ?s) i \<longrightarrow> i \<notin> set (ids_assigned e cs ?s)"
    using ids_assigned_ge[of _ e cs ?s] unfolding below_counter_def by fastforce
  with inc d show ?thesis by blast
qed

text \<open>
  The fifth sample student is deleted from the store the constructor builds; the
  students created afterwards are numbered 6 and 7, and none of them 5.
\<close>

theorem identifiers_never_reused_witness:
  "Map_has (coll Student (run [Update Student 5 [(''section'', JStr ''B'')]]
                            (new_MemStorage sample_clock))) 5
   \<and> ids_assigned Student
        [Delete Student 5, Create Student [(''studentId'', JStr ''STU10050'')] 0,
         Create Teacher [(''teacherId'', JStr ''TCH1004'')] 0,
         Create Student [(''studentId'', JStr ''STU10051'')] 0]
        (run [Update Student 5 [(''section'', JStr ''B'')]] (new_MemStorage sample_clock))
      = [6, 7]
   \<and> 5 \<notin> set (ids_assigned Student
        [Delete Student 5, Create Student [(''studentId'', JStr ''STU10050'')] 0,
         Create Teacher [(''teacherId'', JStr ''TCH1004'')] 0,
         Create Student [(''studentId'', JStr ''STU10051'')] 0]
        (run [Update Student 5 [(''section'', JStr ''B'')]] (new_MemStorage sample_clock)))"
proof -
  let ?pre = "[Update Student 5 [(''section'', JStr ''B'')]]"
  let ?s = "run ?pre (new_MemStorage sample_clock)"
  let ?cs = "[Delete Student 5, Create Student [(''studentId'', JStr ''STU10050'')] 0,
         Create Teacher [(''teacherId'', JStr ''TCH1004'')] 0,
         Create Student [(''studentId'', JStr ''STU10051'')] 0]"
  have has: "Map_has (coll Student ?s) 5" by code_simp
  have ids: "ids_assigned Student ?cs ?s = [6, 7]" by code_simp
  from identifiers_never_reused[of Student ?cs ?pre sample_clock] has
  have "5 \<notin> set (ids_assigned Student ?cs ?s)" by blast
  with has ids show ?thesis by blast
qed

subsection \<open>Teachers and their users\<close>

lemma refs_user_mono:
  "(\<And>u. Map_has (users s) u \<Longrightarrow> Map_has (users s') u) \<Longrightarrow> refs_user s t \<Longrightarrow> refs_user s' t"
  by (auto simp: refs_user_def split: jsval.splits)

lemma refs_user_with_id: "refs_user s (with_id ins i) = refs_user s (spread [] ins)"
  by (simp add: refs_user_def with_id_def jsprop_update_other)

lemma teacher_user_refs_iff:
  "teacher_user_refs s = (\<forall>t \<in> snd ` set (coll Teacher s). refs_user s t)"
  by (auto simp: teacher_user_refs_def getTeachers_def Map_values_def list_all_iff)

lemma users_coll: "users s = coll User s" by simp

text \<open>
  C8, as stated, fails: the store checks no reference. In the store the constructor
  builds every teacher's \<^verbatim>\<open>userId\<close> names a stored user; \<^verbatim>\<open>deleteUser(1)\<close> succeeds there and
  leaves the first sample teacher naming a user that is not stored; and \<^verbatim>\<open>createTeacher\<close>
  stores a teacher whose \<^verbatim>\<open>userId\<close> names no user.
\<close>

theorem teacher_refs_counterexample:
  "teacher_user_refs (new_MemStorage sample_clock)
   \<and> fst (deleteUser 1 (new_MemStorage sample_clock))
   \<and> \<not> teacher_user_refs (snd (deleteUser 1 (new_MemStorage sample_clock)))
   \<and> \<not> teacher_user_refs
         (snd (createTeacher [(''teacherId'', JStr ''TCH1004''), (''userId'', JNum 999)]
                 (new_MemStorage sample_clock)))"
  by code_simp

text \<open>
  C8, amended. The store the constructor builds has no dangling \<^verbatim>\<open>userId\<close>, whatever the
  clock, and a call keeps it so unless it creates or updates a teacher so that the
  teacher's \<^verbatim>\<open>userId\<close> names no stored user, or deletes a user that a teacher names.
\<close>

theorem teacher_refs_preserved:
  "teacher_user_refs (new_MemStorage clk)
   \<and> (teacher_user_refs s \<and> keeps_refs c s \<longrightarrow> teacher_user_refs (exec c s))"
proof (intro conjI impI)
  show "teacher_user_refs (new_MemStorage clk)"
    by code_simp
next
  assume a: "teacher_user_refs s \<and> keeps_refs c s"
  then have inv: "\<forall>t \<in> snd ` set (coll Teacher s). refs_user s t"
    by (simp add: teacher_user_refs_iff)
  show "teacher_user_refs (exec c s)"
  proof (cases c)
    case (Create e ins now)
    have grow: "\<And>u. Map_has (users s) u \<Longrightarrow> Map_has (users (exec c s)) u"
      unfolding users_coll Create coll_create by (simp add: Map_has_set)
    have new: "e = Teacher \<Longrightarrow> refs_user s (created_record Teacher ins now s)"
      using a Create by (simp add: created_record_def refs_user_with_id)
    have "\<forall>t \<in> snd ` set (coll Teacher (exec c s)). refs_user s t"
    proof (cases "e = Teacher")
      case False
      then show ?thesis unfolding Create coll_create using inv by simp
    next
      case True
      have "\<forall>t \<in> snd ` set (Map_set (counter Teacher s) (created_record Teacher ins now s)
                                  (coll Teacher s)). refs_user s t"
        by (rule all_values_update[OF new[OF True] inv])
      then show ?thesis unfolding Create coll_create using True by simp
    qed
    then show ?thesis
      unfolding teacher_user_refs_iff using refs_user_mono[OF grow] by blast
  next
    case (Update e i p)
    have grow: "\<And>u. Map_has (users s) u \<Longrightarrow> Map_has (users (exec c s)) u"
      unfolding users_coll Update coll_update by (simp add: Map_has_set split: option.splits)
    have new: "\<And>old. e = Teacher \<Longrightarrow> Map_get (coll Teacher s) i = Some old
                 \<Longrightarrow> refs_user s (spread (spread [] old) p)"
      using a Update by (simp add: getTeacher_def)
    have "\<forall>t \<in> snd ` set (coll Teacher (exec c s)). refs_user s t"
    proof (cases "e = Teacher")
      case False
      then show ?thesis unfolding Update coll_update using inv by simp
    next
      case True
      show ?thesis
      proof (cases "Map_get (coll Teacher s) i")
        case None
        then show ?thesis unfolding Update coll_update using inv True by simp
      next
        case (Some old)
        have "\<forall>t \<in> snd ` set (Map_set i (spread (spread [] old) p) (coll Teacher s)). refs_user s t"
          by (rule all_values_update[OF new[OF True Some] inv])
        then show ?thesis
          unfolding Update coll_update using True Some by simp
      qed
    qed
    then show ?thesis
      unfolding teacher_user_refs_iff using refs_user_mono[OF grow] by blast
  next
    case (Delete e i)
    have sub: "snd ` set (coll Teacher (exec c s)) \<subseteq> snd ` set (coll Teacher s)"
      unfolding Delete coll_delete using values_delete_subset[of i "coll Teacher s"] by simp
    show ?thesis
    proof (cases "e = User")
      case False
      then have eq: "users (exec c s) = users s"
        unfolding users_coll Delete coll_delete by simp
      have "\<And>t. refs_user s t \<Longrightarrow> refs_user (exec c s) t"
        unfolding refs_user_def eq .
      then show ?thesis unfolding teacher_user_refs_iff using inv sub by blast
    next
      case True
      have u: "users (exec c s) = AList.delete i (users s)"
        unfolding users_coll Delete coll_delete using True by simp
      have same: "coll Teacher (exec c s) = coll Teacher s"
        unfolding Delete coll_delete using True by simp
      have unnamed: "\<forall>t \<in> snd ` set (coll Teacher s). jsprop t ''userId'' \<noteq> JNum i"
        using a Delete True by (auto simp: getTeachers_def Map_values_def list_all_iff)
      have "\<forall>t \<in> snd ` set (coll Teacher s). refs_user (exec c s) t"
      proof
        fix t assume t: "t \<in> snd ` set (coll Teacher s)"
        with inv have r: "refs_user s t" by blast
        from unnamed t have n: "jsprop t ''userId'' \<noteq> JNum i" by blast
        show "refs_user (exec c s) t"
          using r n unfolding refs_user_def u by (auto simp: Map_has_delete split: jsval.splits)
      qed
      then show ?thesis unfolding teacher_user_refs_iff same .
    qed
  qed
qed

theorem teacher_refs_preserved_witness:
  "teacher_user_refs (new_MemStorage sample_clock)
   \<and> keeps_refs (Create Teacher [(''teacherId'', JStr ''TCH1004''), (''userId'', JNum 1)] 0)
        (new_MemStorage sample_clock)
   \<and> teacher_user_refs
        (exec (Create Teacher [(''teacherId'', JStr ''TCH1004''), (''userId'', JNum 1)] 0)
           (new_MemStorage sample_clock))
   \<and> length (getTeachers
        (exec (Create Teacher [(''teacherId'', JStr ''TCH1004''), (''userId'', JNum 1)] 0)
           (new_MemStorage sample_clock))) = 4"
proof -
  let ?s = "new_MemStorage sample_clock"
  let ?c = "Create Teacher [(''teacherId'', JStr ''TCH1004''), (''userId'', JNum 1)] 0"
  have ok: "keeps_refs ?c ?s"
    by (simp add: refs_user_def seeded_users Map_has_def spread_def jsprop_def)
  have len: "length (getTeachers (exec ?c ?s)) = 4"
    by code_simp
  from teacher_refs_preserved[of sample_clock ?s ?c] ok
  have "teacher_user_refs ?s \<and> teacher_user_refs (exec ?c ?s)" by blast
  with ok len show ?thesis by blast
qed

subsection \<open>CSV export\<close>





subsection \<open>The calendar\<close>





























lemma filter_throwing_throws:
  "x \<in> set xs \<Longrightarrow> p x = Inl RangeError \<Longrightarrow> filter_throwing p xs = Inl RangeError"
proof (induction xs)
  case Nil
  then show ?case by simp
next
  case (Cons y ys)
  have all: "\<And>e. e = RangeError" by (rule js_error.exhaust) simp
  show ?case
  proof (cases "p y")
    case (Inl e)
    then show ?thesis by (simp add: all[of e])
  next
    case (Inr b)
    with Cons have "x \<in> set ys" by auto
    with Cons have "filter_throwing p ys = Inl RangeError" by simp
    with Inr show ?thesis by simp
  qed
qed

lemma getAttendanceByDate_throws:
  "getAttendanceByDate P D None s = Inl RangeError"
  "a \<in> set (getAttendance s) \<Longrightarrow> date_of P D a = None
     \<Longrightarrow> getAttendanceByDate P D (Some t) s = Inl RangeError"
proof -
  show "getAttendanceByDate P D None s = Inl RangeError"
    by (simp add: getAttendanceByDate_def Date_toISOString_def)
next
  assume a: "a \<in> set (getAttendance s)" and n: "date_of P D a = None"
  let ?p = "\<lambda>a. case Date_toISOString (new_Date P D (jsprop a ''date'')) of
                        Inl e \<Rightarrow> Inl e
                      | Inr text' \<Rightarrow> Inr (split_first CHR ''T'' text' = split_first CHR ''T'' (toISOString t))"
  have "?p a = Inl RangeError" using n by (simp add: date_of_def Date_toISOString_def)
  from filter_throwing_throws[of a "Map_values (attendance s)" ?p, OF _ this] a
  show "getAttendanceByDate P D (Some t) s = Inl RangeError"
    by (simp add: getAttendanceByDate_def Date_toISOString_def getAttendance_def)
qed



subsection \<open>The attendance list route\<close>






subsection \<open>Validation comes before any change\<close>

lemmas handler_defs = post_users_def put_users_def post_students_def put_students_def
  post_teachers_def put_teachers_def post_classes_def put_classes_def
  post_class_enrollments_def post_attendance_def put_attendance_def post_grades_def
  put_grades_def post_events_def put_events_def

text \<open>
  C2. For each of the fifteen routes that create or update a record: when the body fails
  the route's schema, the answer has status 400 and the store is the one it was. The
  answer carries the formatted validation error, unless the route reads an \<^verbatim>\<open>:id\<close> that
  is not a number, which it reports first (also with status 400). A student without
  \<^verbatim>\<open>studentId\<close> fails the student schema (\<open>student_schema_requires_studentId\<close>).
\<close>

theorem validation_rejects_before_mutation:
  assumes "safeParse (route_schema r) (body req) = Inl issues"
  shows "snd (handler r h req now s) = s
       \<and> status (fst (handler r h req now s)) = 400
       \<and> (if reads_id r \<and> parseInt (param_id req) = None
           then \<exists>msg. payload (fst (handler r h req now s)) = JObj [(''error'', JStr msg)]
           else fst (handler r h req now s) = validation_response issues)"
  using assms
  by (cases r)
     (simp_all add: handler_defs validation_response_def error_response_def split: option.splits)

lemma student_schema_requires_studentId:
  assumes "map_of input ''studentId'' = None"
  shows "\<exists>issues. safeParse insertStudentSchema (JObj input) = Inl issues
                \<and> ([''studentId''], ''Required'') \<in> set issues"
proof -
  have "check_field input \<lparr> z_name = ''studentId'', z_type = ZString, z_nullable = False,
                            z_optional = False \<rparr> = [([''studentId''], ''Required'')]"
    using assms by (simp add: check_field_def)
  then have "([''studentId''], ''Required'') \<in> set (concat (map (check_field input) insertStudentSchema))"
    by (simp add: insertStudentSchema_def omit_def createInsertSchema_def students_table_def
        col_def zod_type_def)
  moreover from this have "concat (map (check_field input) insertStudentSchema) \<noteq> []"
    by (metis empty_iff empty_set)
  ultimately show ?thesis
    by (simp add: safeParse_def Let_def)
qed

theorem validation_rejects_before_mutation_witness:
  "safeParse (route_schema POST_students)
       (body \<lparr> param_id = [], query = [],
               body = JObj [(''firstName'', JStr ''Sarah''), (''lastName'', JStr ''Johnson'')] \<rparr>)
     = Inl [([''studentId''], ''Required''), ([''gender''], ''Required''),
            ([''dateOfBirth''], ''Required''), ([''email''], ''Required''),
            ([''gradeLevel''], ''Required''), ([''section''], ''Required''),
            ([''enrollmentDate''], ''Required'')]
   \<and> snd (post_students
        \<lparr> Date_parse = (\<lambda>x. None), Date_toString = (\<lambda>t. []), Date_toLocaleDateString = (\<lambda>t. []) \<rparr>
        \<lparr> param_id = [], query = [],
          body = JObj [(''firstName'', JStr ''Sarah''), (''lastName'', JStr ''Johnson'')] \<rparr>
        0 (new_MemStorage sample_clock))
     = new_MemStorage sample_clock
   \<and> status (fst (post_students
        \<lparr> Date_parse = (\<lambda>x. None), Date_toString = (\<lambda>t. []), Date_toLocaleDateString = (\<lambda>t. []) \<rparr>
        \<lparr> param_id = [], query = [],
          body = JObj [(''firstName'', JStr ''Sarah''), (''lastName'', JStr ''Johnson'')] \<rparr>
        0 (new_MemStorage sample_clock))) = 400"
proof -
  let ?req = "\<lparr> param_id = [], query = [],
          body = JObj [(''firstName'', JStr ''Sarah''), (''lastName'', JStr ''Johnson'')] \<rparr>"
  let ?issues = "[([''studentId''], ''Required''), ([''gender''], ''Required''),
            ([''dateOfBirth''], ''Required''), ([''email''], ''Required''),
            ([''gradeLevel''], ''Required''), ([''section''], ''Required''),
            ([''enrollmentDate''], ''Required'')]"
  have fails: "safeParse (route_schema POST_students) (body ?req) = Inl ?issues"
    by (simp add: safeParse_def check_field_def insertStudentSchema_def omit_def
        createInsertSchema_def students_table_def col_def zod_type_def Let_def)
  from validation_rejects_before_mutation[OF fails] fails show ?thesis
    by (simp only: handler.simps)
qed

end
